theory Spec2Isabelle
  imports Complex_Main
begin

section \<open>Dial pattern generator: data model\<close>

text \<open>
  The development embeds \<^verbatim>\<open>watch_dial_pattern_generator.py\<close>.

  Conventions of the embedding:
  \<^item> a Python \<^verbatim>\<open>float\<close> is a \<open>real\<close> and its arithmetic is exact, except where the code
    truncates a float to an integer with \<^verbatim>\<open>int\<close>: there the last bit decides the integer,
    so every operation that leads to the truncated value is rounded to double precision
    by \<open>fl\<close>. Overflow, infinities and NaN of IEEE doubles are outside the model;
  \<^item> a Python \<^verbatim>\<open>int\<close> is an \<open>int\<close>;
  \<^item> an exception is a value \<open>Inl e\<close> of a sum type, a loop that does not return is
    the value \<open>None\<close> of an option type;
  \<^item> the SVG elements appended to a group are the list of nodes the generator returns,
    oldest first; an attribute set with \<^verbatim>\<open>str(x)\<close> or \<^verbatim>\<open>f"{x:.6f}"\<close> is kept as the
    number \<open>x\<close> itself.
\<close>

datatype error = ZeroDivisionError | ValueError

text \<open>The style dictionary handed to \<^verbatim>\<open>set_style\<close>; absent keys are \<open>None\<close>.\<close>

record style =
  st_fill :: string
  st_stroke :: string
  st_stroke_width :: real
  st_stroke_opacity :: "real option"
  st_stroke_linecap :: "string option"
  st_stroke_linejoin :: "string option"

text \<open>
  The elements the generator creates. \<open>Circle cx cy r s\<close> is a circle element,
  \<open>Path pts s\<close> a path element whose \<^verbatim>\<open>d\<close> attribute is "M" to the first point and "L"
  to each later one, \<open>Layer n rot cs\<close> the group \<^verbatim>\<open>layer-n\<close> made by \<^verbatim>\<open>make_layer\<close>
  with its optional \<^verbatim>\<open>rotate(deg,cx,cy)\<close> transform and its children.
\<close>

datatype node =
    Circle real real real style
  | Path "(real \<times> real) list" style
  | Layer nat "(real \<times> real \<times> real) option" "node list"

fun circle_r :: "node \<Rightarrow> real" where
  "circle_r (Circle x y r s) = r"
| "circle_r (Path ps s) = 0"
| "circle_r (Layer n t cs) = 0"

fun is_circle :: "node \<Rightarrow> bool" where
  "is_circle (Circle x y r s) = True"
| "is_circle (Path ps s) = False"
| "is_circle (Layer n t cs) = False"

fun path_points :: "node \<Rightarrow> (real \<times> real) list" where
  "path_points (Path ps s) = ps"
| "path_points (Circle x y r s) = []"
| "path_points (Layer n t cs) = []"

subsection \<open>Python and host primitives\<close>

text \<open>\<^verbatim>\<open>int(x)\<close> on a float truncates toward zero.\<close>

definition py_int :: "real \<Rightarrow> int" where
  "py_int x = (if 0 \<le> x then \<lfloor>x\<rfloor> else \<lceil>x\<rceil>)"

text \<open>
  Rounding to an IEEE double: \<open>fl x\<close> is the nearest number with a significand of 53
  bits, a tie going to the even significand (the exponent is not bounded). \<open>pow2 e\<close>
  is \<open>2\<close> to the power \<open>e\<close>, and \<open>rne\<close> rounds to the nearest integer, ties to even.
  A float literal \<^verbatim>\<open>0.10\<close> is \<open>fl (1 / 10)\<close>, a float product \<^verbatim>\<open>a * b\<close> is \<open>fl (a * b)\<close>,
  and an integer used in float arithmetic is converted by \<open>fl\<close> as well.
\<close>

definition pow2 :: "int \<Rightarrow> real" where
  "pow2 e = (if 0 \<le> e then 2 ^ nat e else 1 / 2 ^ nat (- e))"

definition rne :: "real \<Rightarrow> int" where
  "rne x =
     (let f = \<lfloor>x\<rfloor>; d = x - of_int f
      in if d < 1 / 2 then f
         else if 1 / 2 < d then f + 1
         else if even f then f else f + 1)"

definition fl :: "real \<Rightarrow> real" where
  "fl x =
     (if x = 0 then 0
      else (let e = \<lfloor>log 2 \<bar>x\<bar>\<rfloor> - 52
            in of_int (rne (x / pow2 e)) * pow2 e))"

definition radians :: "real \<Rightarrow> real" where
  "radians d = d * pi / 180"

definition degrees :: "real \<Rightarrow> real" where
  "degrees t = t * 180 / pi"

text \<open>
  The host document, as far as the generator reads it: the centre computed by
  \<^verbatim>\<open>get_doc_center\<close> and the unit conversion \<^verbatim>\<open>svg.unittouu(f"{mm}mm")\<close>, which is
  \<open>None\<close> where the host raises.
\<close>

record svg_doc =
  doc_center :: "real \<times> real"
  unittouu :: "real \<Rightarrow> real option"

definition get_doc_center :: "svg_doc \<Rightarrow> real \<times> real" where
  "get_doc_center svg = doc_center svg"

definition mm_to_uu :: "svg_doc \<Rightarrow> real \<Rightarrow> real" where
  "mm_to_uu svg mm = (case unittouu svg mm of Some v \<Rightarrow> v | None \<Rightarrow> mm * 96 / (254 / 10))"

text \<open>
  A document in millimetre user units (\<^verbatim>\<open>unittouu\<close> maps 1 mm to 1) centred at
  (50, 50): the concrete document of the instances below.
\<close>

definition mm_doc :: svg_doc where
  "mm_doc = \<lparr>doc_center = (50, 50), unittouu = (\<lambda>mm. Some mm)\<rparr>"

definition polar :: "real \<Rightarrow> real \<Rightarrow> real \<Rightarrow> real \<Rightarrow> real \<times> real" where
  "polar cx cy r ang_deg_clockwise_from_12 =
     (let a = radians ang_deg_clockwise_from_12
      in (cx + r * sin a, cy - r * cos a))"

section \<open>Pattern generators\<close>

subsection \<open>Concentric rings\<close>

definition ring_style :: "real \<Rightarrow> string \<Rightarrow> real \<Rightarrow> style" where
  "ring_style stroke_w stroke_color opacity =
     \<lparr>st_fill = ''none'', st_stroke = stroke_color, st_stroke_width = stroke_w,
      st_stroke_opacity = Some opacity, st_stroke_linecap = None, st_stroke_linejoin = None\<rparr>"

text \<open>
  The \<^verbatim>\<open>while r <= r_outer + 1e-9\<close> loop of \<^verbatim>\<open>pattern_concentric\<close>: \<open>g\<close> holds the
  circles added so far. The loop has no bound of its own, so it is a partial function:
  \<open>None\<close> means that it never returns.
\<close>

partial_function (option) concentric_loop ::
  "real \<Rightarrow> real \<Rightarrow> real \<Rightarrow> real \<Rightarrow> style \<Rightarrow> real \<Rightarrow> node list \<Rightarrow> node list option" where
  "concentric_loop cx cy r_outer spacing s r g =
     (if r \<le> r_outer + 1 / 10 ^ 9
      then concentric_loop cx cy r_outer spacing s (r + spacing) (g @ [Circle cx cy r s])
      else Some g)"

definition pattern_concentric ::
  "real \<Rightarrow> real \<Rightarrow> real \<Rightarrow> real \<Rightarrow> real \<Rightarrow> real \<Rightarrow> string \<Rightarrow> real \<Rightarrow> node list option" where
  "pattern_concentric cx cy r_outer r_inner spacing stroke_w stroke_color opacity =
     concentric_loop cx cy r_outer spacing (ring_style stroke_w stroke_color opacity)
       (max 0 r_inner) []"

subsection \<open>Sunburst\<close>

definition ray_style :: "real \<Rightarrow> string \<Rightarrow> real \<Rightarrow> style" where
  "ray_style stroke_w stroke_color opacity =
     \<lparr>st_fill = ''none'', st_stroke = stroke_color, st_stroke_width = stroke_w,
      st_stroke_opacity = Some opacity, st_stroke_linecap = Some ''round'',
      st_stroke_linejoin = None\<rparr>"

definition pattern_sunburst ::
  "real \<Rightarrow> real \<Rightarrow> real \<Rightarrow> real \<Rightarrow> int \<Rightarrow> real \<Rightarrow> string \<Rightarrow> real \<Rightarrow> node list" where
  "pattern_sunburst cx cy r_outer r_inner rays stroke_w stroke_color opacity =
     (let rays = max 4 rays;
          step = 360 / real_of_int rays
      in map (\<lambda>i. let ang = real i * step
                   in Path [polar cx cy r_inner ang, polar cx cy r_outer ang]
                        (ray_style stroke_w stroke_color opacity))
           [0..<nat rays])"

subsection \<open>Crosshatch\<close>

text \<open>
  \<^verbatim>\<open>size = r_outer * 2.2\<close> and \<^verbatim>\<open>count = int((size / spacing)) + 3\<close>, with \<open>sz\<close> for
  \<^verbatim>\<open>size\<close>. The count is a truncated float, so the product and the quotient are the
  rounded ones. The float division raises \<^verbatim>\<open>ZeroDivisionError\<close> for \<open>spacing = 0\<close>,
  which \<open>add_set\<close> checks before it uses the count.
\<close>

definition hatch_size :: "real \<Rightarrow> real" where
  "hatch_size r_outer = fl (r_outer * fl (22 / 10))"

definition hatch_count :: "real \<Rightarrow> real \<Rightarrow> int" where
  "hatch_count sz spacing = py_int (fl (sz / spacing)) + 3"

text \<open>
  \<^verbatim>\<open>range(start, end)\<close> with \<^verbatim>\<open>start = -count // 2\<close>, which Python reads as
  \<^verbatim>\<open>(-count) // 2\<close>, and \<^verbatim>\<open>end = count // 2 + 1\<close>; \<^verbatim>\<open>//\<close> on integers rounds
  toward minus infinity, as \<open>div\<close> does.
\<close>

definition hatch_range :: "int \<Rightarrow> int list" where
  "hatch_range count =
     (let start = (- count) div 2;
          stop = count div 2 + 1
      in [start..stop - 1])"

text \<open>The body of the loop in \<^verbatim>\<open>add_set\<close>, for the offset \<^verbatim>\<open>off = i * spacing\<close>.\<close>

definition hatch_line ::
  "real \<Rightarrow> real \<Rightarrow> real \<Rightarrow> real \<Rightarrow> real \<Rightarrow> style \<Rightarrow> real \<Rightarrow> node" where
  "hatch_line cx cy half ux uy s off =
     (let vx = - uy; vy = ux;
          px = cx + off * vx;
          py = cy + off * vy
      in Path [(px - half * ux, py - half * uy), (px + half * ux, py + half * uy)] s)"

definition add_set ::
  "real \<Rightarrow> real \<Rightarrow> real \<Rightarrow> real \<Rightarrow> style \<Rightarrow> real \<Rightarrow> error + node list" where
  "add_set cx cy r_outer spacing s theta_deg =
     (let sz = hatch_size r_outer;
          half = sz / 2;
          theta = radians theta_deg;
          ux = cos theta; uy = sin theta
      in if spacing = 0 then Inl ZeroDivisionError
         else Inr (map (\<lambda>i. hatch_line cx cy half ux uy s (real_of_int i * spacing))
                     (hatch_range (hatch_count sz spacing))))"

definition pattern_crosshatch ::
  "real \<Rightarrow> real \<Rightarrow> real \<Rightarrow> real \<Rightarrow> real \<Rightarrow> bool \<Rightarrow> real \<Rightarrow> string \<Rightarrow> real \<Rightarrow> error + node list" where
  "pattern_crosshatch cx cy r_outer spacing angle_deg double stroke_w stroke_color opacity =
     (let s = ray_style stroke_w stroke_color opacity
      in case add_set cx cy r_outer spacing s angle_deg of
           Inl e \<Rightarrow> Inl e
         | Inr first \<Rightarrow>
             if double
             then (case add_set cx cy r_outer spacing s (angle_deg + 90) of
                     Inl e \<Rightarrow> Inl e
                   | Inr second \<Rightarrow> Inr (first @ second))
             else Inr first)"

text \<open>The offsets \<^verbatim>\<open>off\<close> of one family of lines, in the order the loop visits them.\<close>

definition hatch_offsets :: "real \<Rightarrow> real \<Rightarrow> real list" where
  "hatch_offsets r_outer spacing =
     map (\<lambda>i. real_of_int i * spacing) (hatch_range (hatch_count (hatch_size r_outer) spacing))"

subsection \<open>Guilloche\<close>

definition rosette_style :: "real \<Rightarrow> string \<Rightarrow> real \<Rightarrow> style" where
  "rosette_style stroke_w stroke_color opacity =
     \<lparr>st_fill = ''none'', st_stroke = stroke_color, st_stroke_width = stroke_w,
      st_stroke_opacity = Some opacity, st_stroke_linecap = None,
      st_stroke_linejoin = Some ''round''\<rparr>"

text \<open>
  The polar sample \<open>(r, ang_deg)\<close> the loop of \<^verbatim>\<open>pattern_guilloche\<close> computes at index
  \<open>i\<close>, from the clamped \<open>lobes\<close> and \<open>points\<close> and the base radius.
\<close>

definition guilloche_sample :: "real \<Rightarrow> real \<Rightarrow> int \<Rightarrow> int \<Rightarrow> nat \<Rightarrow> real \<times> real" where
  "guilloche_sample base amplitude lobes points i =
     (let t = (2 * pi) * (real i / real_of_int points);
          r = base + amplitude * cos (real_of_int lobes * t);
          ang_deg = degrees t
      in (r, ang_deg))"

definition guilloche_samples :: "real \<Rightarrow> int \<Rightarrow> real \<Rightarrow> int \<Rightarrow> (real \<times> real) list" where
  "guilloche_samples r_outer lobes amplitude points =
     (let lobes = max 2 lobes;
          points = max 200 points;
          base = max 0 (r_outer - amplitude)
      in map (guilloche_sample base amplitude lobes points) [0..<nat (points + 1)])"

definition pattern_guilloche ::
  "real \<Rightarrow> real \<Rightarrow> real \<Rightarrow> int \<Rightarrow> real \<Rightarrow> int \<Rightarrow> real \<Rightarrow> string \<Rightarrow> real \<Rightarrow> node list" where
  "pattern_guilloche cx cy r_outer lobes amplitude points stroke_w stroke_color opacity =
     (let pts = map (\<lambda>(r, ang_deg). polar cx cy r ang_deg)
                  (guilloche_samples r_outer lobes amplitude points)
      in [Path pts (rosette_style stroke_w stroke_color opacity)])"

section \<open>The extension: options, layers, composition\<close>

text \<open>The options of \<^verbatim>\<open>add_arguments\<close> that \<^verbatim>\<open>effect\<close> reads.\<close>

record options =
  opt_dial_diameter_mm :: real
  opt_draw_outline :: bool
  opt_outline_stroke_mm :: real
  opt_outline_compensate_stroke :: bool
  opt_clip_to_circle :: bool
  opt_inner_radius_mm :: real
  opt_pattern_type :: string
  opt_stroke_mm :: real
  opt_stroke_color :: string
  opt_stroke_opacity :: real
  opt_ring_spacing_mm :: real
  opt_rays :: int
  opt_lobes :: int
  opt_amplitude_mm :: real
  opt_points :: int
  opt_hatch_spacing_mm :: real
  opt_hatch_angle_deg :: real
  opt_hatch_double :: bool
  opt_auto_complex :: bool
  opt_complex_preset :: string
  opt_layers :: int
  opt_seed :: int
  opt_rotate_jitter_deg :: real
  opt_opacity_decay :: real
  opt_stroke_decay :: real
  opt_lobe_jitter :: int
  opt_amp_decay :: real
  opt_group_name :: string

text \<open>The defaults declared in \<^verbatim>\<open>add_arguments\<close>.\<close>

definition default_options :: options where
  "default_options =
     \<lparr>opt_dial_diameter_mm = 28.5, opt_draw_outline = True, opt_outline_stroke_mm = 0.12,
      opt_outline_compensate_stroke = True, opt_clip_to_circle = True,
      opt_inner_radius_mm = 0, opt_pattern_type = ''guilloche'', opt_stroke_mm = 0.10,
      opt_stroke_color = ''#000000'', opt_stroke_opacity = 0.35,
      opt_ring_spacing_mm = 0.6, opt_rays = 120, opt_lobes = 12, opt_amplitude_mm = 1.2,
      opt_points = 1200, opt_hatch_spacing_mm = 0.7, opt_hatch_angle_deg = 35,
      opt_hatch_double = True, opt_auto_complex = False,
      opt_complex_preset = ''rosette_stack'', opt_layers = 4, opt_seed = 1,
      opt_rotate_jitter_deg = 6, opt_opacity_decay = 0.75, opt_stroke_decay = 0.85,
      opt_lobe_jitter = 10, opt_amp_decay = 0.70, opt_group_name = ''dial-pattern''\<rparr>"

text \<open>The overrides dictionary of a layer: a key that is absent is \<open>None\<close>.\<close>

record overrides =
  ov_ring_spacing :: "real option"
  ov_rays :: "int option"
  ov_lobes :: "int option"
  ov_amplitude :: "real option"
  ov_points :: "int option"
  ov_hatch_spacing :: "real option"
  ov_hatch_angle :: "real option"
  ov_hatch_double :: "bool option"

definition no_overrides :: overrides where
  "no_overrides =
     \<lparr>ov_ring_spacing = None, ov_rays = None, ov_lobes = None, ov_amplitude = None,
      ov_points = None, ov_hatch_spacing = None, ov_hatch_angle = None,
      ov_hatch_double = None\<rparr>"

text \<open>\<^verbatim>\<open>d.get(key, default)\<close>.\<close>

definition dict_get :: "'a option \<Rightarrow> 'a \<Rightarrow> 'a" where
  "dict_get v d = (case v of Some x \<Rightarrow> x | None \<Rightarrow> d)"

definition draw_one ::
  "options \<Rightarrow> svg_doc \<Rightarrow> real \<Rightarrow> real \<Rightarrow> real \<Rightarrow> real \<Rightarrow> string \<Rightarrow> real \<Rightarrow> string \<Rightarrow> real \<Rightarrow>
   overrides \<Rightarrow> (error + node list) option" where
  "draw_one opts svg cx cy r_outer r_inner ptype stroke_w stroke_color opacity ovr =
     (if ptype = ''concentric'' then
        (let spacing = dict_get (ov_ring_spacing ovr) (mm_to_uu svg (opt_ring_spacing_mm opts))
         in map_option Inr
              (pattern_concentric cx cy r_outer r_inner spacing stroke_w stroke_color opacity))
      else if ptype = ''sunburst'' then
        (let rays = dict_get (ov_rays ovr) (opt_rays opts)
         in Some (Inr (pattern_sunburst cx cy r_outer r_inner rays stroke_w stroke_color opacity)))
      else if ptype = ''crosshatch'' then
        (let hs = dict_get (ov_hatch_spacing ovr) (mm_to_uu svg (opt_hatch_spacing_mm opts));
             ha = dict_get (ov_hatch_angle ovr) (opt_hatch_angle_deg opts);
             hd = dict_get (ov_hatch_double ovr) (opt_hatch_double opts)
         in Some (pattern_crosshatch cx cy r_outer hs ha hd stroke_w stroke_color opacity))
      else
        (let lobes = dict_get (ov_lobes ovr) (opt_lobes opts);
             amp = dict_get (ov_amplitude ovr) (mm_to_uu svg (opt_amplitude_mm opts));
             pts = dict_get (ov_points ovr) (opt_points opts)
         in Some (Inr (pattern_guilloche cx cy r_outer lobes amp pts stroke_w stroke_color opacity))))"

subsection \<open>The seeded random source\<close>

text \<open>
  \<^verbatim>\<open>random.Random\<close> belongs to Python's standard library, so the generator is a
  parameter of the model: a state type \<open>'g\<close>, the state \<^verbatim>\<open>Random(seed)\<close> starts in, the
  integer draw behind \<^verbatim>\<open>randint(a, b)\<close> for \<open>a \<le> b\<close> and the draw \<^verbatim>\<open>random()\<close>, each
  returning the next state. \<^verbatim>\<open>randint\<close> raises \<^verbatim>\<open>ValueError\<close> on an empty range and
  \<^verbatim>\<open>uniform(a, b)\<close> is \<^verbatim>\<open>a + (b - a) * random()\<close>, as in the library.
\<close>

record 'g prng =
  prng_seed :: "int \<Rightarrow> 'g"
  prng_randint :: "'g \<Rightarrow> int \<Rightarrow> int \<Rightarrow> int \<times> 'g"
  prng_random :: "'g \<Rightarrow> real \<times> 'g"

definition randint :: "'g prng \<Rightarrow> 'g \<Rightarrow> int \<Rightarrow> int \<Rightarrow> error + (int \<times> 'g)" where
  "randint R st a b = (if b < a then Inl ValueError else Inr (prng_randint R st a b))"

definition uniform :: "'g prng \<Rightarrow> 'g \<Rightarrow> real \<Rightarrow> real \<Rightarrow> real \<times> 'g" where
  "uniform R st a b = (let (u, st') = prng_random R st in (a + (b - a) * u, st'))"

text \<open>
  A small linear congruential generator: a concrete instance of the interface at which
  the theorems below, which hold for every generator, are instantiated.
\<close>

definition lcg_next :: "nat \<Rightarrow> nat" where
  "lcg_next s = (75 * s + 74) mod 65537"

definition lcg :: "nat prng" where
  "lcg =
     \<lparr>prng_seed = (\<lambda>n. nat \<bar>n\<bar> mod 65537),
      prng_randint = (\<lambda>s a b. (a + int (lcg_next s) mod (b - a + 1), lcg_next s)),
      prng_random = (\<lambda>s. (real (lcg_next s) / 65537, lcg_next s))\<rparr>"

subsection \<open>Layer plans\<close>

text \<open>\<^verbatim>\<open>str.strip\<close> and \<^verbatim>\<open>str.lower\<close> on ASCII text.\<close>

definition is_space :: "char \<Rightarrow> bool" where
  "is_space c = ((of_char c :: nat) \<in> {9, 10, 11, 12, 13, 28, 29, 30, 31, 32})"

definition py_strip :: "string \<Rightarrow> string" where
  "py_strip s = rev (dropWhile is_space (rev (dropWhile is_space s)))"

definition lower_char :: "char \<Rightarrow> char" where
  "lower_char c =
     (case map_of (zip ''ABCDEFGHIJKLMNOPQRSTUVWXYZ'' ''abcdefghijklmnopqrstuvwxyz'') c of
        Some d \<Rightarrow> d
      | None \<Rightarrow> c)"

definition py_lower :: "string \<Rightarrow> string" where
  "py_lower s = map lower_char s"

text \<open>
  A plan entry is the pattern type and the function that builds the layer's overrides;
  the lambdas of the presets draw from the shared generator, so they take and return
  its state.
\<close>

type_synonym 'g plan_entry = "string \<times> (nat \<Rightarrow> 'g \<Rightarrow> error + (overrides \<times> 'g))"

definition rosette_ofn :: "'g prng \<Rightarrow> options \<Rightarrow> svg_doc \<Rightarrow> int \<Rightarrow> int \<Rightarrow> real \<Rightarrow> int \<Rightarrow>
    nat \<Rightarrow> 'g \<Rightarrow> error + (overrides \<times> 'g)" where
  "rosette_ofn R opts svg centre jit amp_mm min_points i st =
     (case randint R st (- jit) jit of
        Inl e \<Rightarrow> Inl e
      | Inr (j, st') \<Rightarrow>
          Inr (no_overrides\<lparr>ov_lobes := Some (centre + j),
                 ov_amplitude := Some (mm_to_uu svg amp_mm),
                 ov_points := Some (max min_points (opt_points opts))\<rparr>, st'))"

definition breguet_plan :: "'g prng \<Rightarrow> options \<Rightarrow> svg_doc \<Rightarrow> 'g plan_entry list" where
  "breguet_plan R opts svg =
     [(''concentric'', \<lambda>i st. Inr (no_overrides\<lparr>ov_ring_spacing := Some (mm_to_uu svg 0.45)\<rparr>, st)),
      (''guilloche'', rosette_ofn R opts svg 12 2 1.0 1600),
      (''sunburst'', \<lambda>i st. Inr (no_overrides\<lparr>ov_rays := Some 240\<rparr>, st)),
      (''guilloche'', rosette_ofn R opts svg 36 6 0.28 2400)]"

definition modern_plan :: "'g prng \<Rightarrow> options \<Rightarrow> svg_doc \<Rightarrow> 'g plan_entry list" where
  "modern_plan R opts svg =
     [(''sunburst'', \<lambda>i st. Inr (no_overrides\<lparr>ov_rays := Some 300\<rparr>, st)),
      (''crosshatch'', \<lambda>i st. Inr (no_overrides\<lparr>ov_hatch_spacing := Some (mm_to_uu svg 0.6),
                                    ov_hatch_angle := Some 35, ov_hatch_double := Some True\<rparr>, st)),
      (''guilloche'', rosette_ofn R opts svg 18 3 0.75 2000),
      (''guilloche'', rosette_ofn R opts svg 48 8 0.22 3000)]"

text \<open>
  The preset branch of \<^verbatim>\<open>effect\<close>: the plan and the effective number of layers.
\<close>

definition resolve_plan :: "'g prng \<Rightarrow> options \<Rightarrow> svg_doc \<Rightarrow> 'g plan_entry list \<times> int" where
  "resolve_plan R opts svg =
     (let layers = max 1 (opt_layers opts);
          preset = py_lower (py_strip (if opt_complex_preset opts = [] then ''rosette_stack''
                                       else opt_complex_preset opts))
      in if preset = ''breguet'' then (breguet_plan R opts svg, max layers 4)
         else if preset = ''modern'' then (modern_plan R opts svg, max layers 4)
         else if preset = ''pocketwatch''
         then (replicate (nat layers) (''guilloche'', \<lambda>i st. Inr (no_overrides, st)), layers)
         else (replicate (nat layers) (''guilloche'', \<lambda>i st. Inr (no_overrides, st)), layers))"

text \<open>The pattern types of the layers \<open>0, \<dots>, layers - 1\<close>, each taken from the plan
  entry \<^verbatim>\<open>plan[i % len(plan)]\<close>.\<close>

definition layer_kinds :: "'g prng \<Rightarrow> options \<Rightarrow> svg_doc \<Rightarrow> string list" where
  "layer_kinds R opts svg =
     (let (plan, layers) = resolve_plan R opts svg
      in map (\<lambda>i. fst (plan ! (i mod length plan))) [0..<nat layers])"

subsection \<open>Per-layer variation\<close>

text \<open>
  The block \<^verbatim>\<open>if ptype == "guilloche"\<close> of the layer loop. The point count is
  \<^verbatim>\<open>max(800, int(p0 * (1.0 + 0.10 * i)))\<close>, a truncated float: the literal \<^verbatim>\<open>0.10\<close>, the
  conversions of \<^verbatim>\<open>i\<close> and \<^verbatim>\<open>p0\<close>, the two products and the sum are rounded to doubles.
\<close>

definition vary_guilloche ::
  "'g prng \<Rightarrow> options \<Rightarrow> svg_doc \<Rightarrow> nat \<Rightarrow> overrides \<Rightarrow> 'g \<Rightarrow> error + (overrides \<times> 'g)" where
  "vary_guilloche R opts svg i ovr st =
     (let base_lobes = dict_get (ov_lobes ovr) (opt_lobes opts);
          base_amp = dict_get (ov_amplitude ovr) (mm_to_uu svg (opt_amplitude_mm opts))
      in case (if ov_lobes ovr = None
               then (case randint R st (- opt_lobe_jitter opts) (opt_lobe_jitter opts) of
                       Inl e \<Rightarrow> Inl e
                     | Inr (j, st') \<Rightarrow> Inr (ovr\<lparr>ov_lobes := Some (max 2 (base_lobes + j))\<rparr>, st'))
               else Inr (ovr, st)) of
           Inl e \<Rightarrow> Inl e
         | Inr (ovr1, st1) \<Rightarrow>
             (let ovr2 = (if ov_amplitude ovr1 = None
                          then ovr1\<lparr>ov_amplitude := Some (base_amp * opt_amp_decay opts ^ i)\<rparr>
                          else ovr1);
                  ovr3 = (if ov_points ovr2 = None
                          then (let p0 = opt_points opts
                                in ovr2\<lparr>ov_points :=
                                     Some (max 800 (py_int
                                       (fl (fl (real_of_int p0) *
                                            fl (1 + fl (fl (1 / 10) * fl (real i)))))))\<rparr>)
                          else ovr2)
              in Inr (ovr3, st1)))"

text \<open>The block \<^verbatim>\<open>if ptype == "crosshatch"\<close> of the layer loop.\<close>

definition vary_crosshatch ::
  "'g prng \<Rightarrow> options \<Rightarrow> overrides \<Rightarrow> 'g \<Rightarrow> overrides \<times> 'g" where
  "vary_crosshatch R opts ovr st =
     (if ov_hatch_angle ovr = None
      then (let (d, st') = uniform R st (- 5) 5
            in (ovr\<lparr>ov_hatch_angle := Some (opt_hatch_angle_deg opts + d)\<rparr>, st'))
      else (ovr, st))"

text \<open>The per-layer stroke width \<^verbatim>\<open>sw\<close> and opacity \<^verbatim>\<open>op\<close>.\<close>

definition layer_stroke :: "options \<Rightarrow> real \<Rightarrow> nat \<Rightarrow> real" where
  "layer_stroke opts base_stroke i = base_stroke * (opt_stroke_decay opts ^ i)"

definition layer_opacity :: "options \<Rightarrow> real \<Rightarrow> nat \<Rightarrow> real" where
  "layer_opacity opts base_opacity i =
     (let op = base_opacity * (opt_opacity_decay opts ^ i)
      in max 0.02 (min 1.0 op))"

text \<open>
  One pass of the layer loop up to the call of \<^verbatim>\<open>make_layer\<close>: the pattern type, the
  resolved overrides, stroke width, opacity, rotation and the generator's next state.
  \<^verbatim>\<open>plan[i % len(plan)]\<close> raises \<^verbatim>\<open>ZeroDivisionError\<close> on an empty plan.
\<close>

record 'g layer_spec =
  ls_ptype :: string
  ls_overrides :: overrides
  ls_stroke :: real
  ls_opacity :: real
  ls_rotation :: real
  ls_rnd :: 'g

definition resolve_layer ::
  "'g prng \<Rightarrow> options \<Rightarrow> svg_doc \<Rightarrow> real \<Rightarrow> real \<Rightarrow> 'g plan_entry list \<Rightarrow> nat \<Rightarrow> 'g \<Rightarrow>
   error + 'g layer_spec" where
  "resolve_layer R opts svg base_stroke base_opacity plan i st =
     (if plan = [] then Inl ZeroDivisionError
      else
        (let (ptype, ofn) = plan ! (i mod length plan)
         in case ofn i st of
              Inl e \<Rightarrow> Inl e
            | Inr (ovr0, st0) \<Rightarrow>
                (case (if ptype = ''guilloche'' then vary_guilloche R opts svg i ovr0 st0
                       else Inr (ovr0, st0)) of
                   Inl e \<Rightarrow> Inl e
                 | Inr (ovr1, st1) \<Rightarrow>
                     (let (ovr2, st2) = (if ptype = ''crosshatch''
                                         then vary_crosshatch R opts ovr1 st1
                                         else (ovr1, st1));
                          sw = layer_stroke opts base_stroke i;
                          op = layer_opacity opts base_opacity i;
                          (rot, st3) = uniform R st2 (- opt_rotate_jitter_deg opts)
                                         (opt_rotate_jitter_deg opts)
                      in Inr \<lparr>ls_ptype = ptype, ls_overrides = ovr2, ls_stroke = sw,
                              ls_opacity = op, ls_rotation = rot, ls_rnd = st3\<rparr>))))"

definition make_layer :: "real \<Rightarrow> real \<Rightarrow> nat \<Rightarrow> real \<Rightarrow> node list \<Rightarrow> node" where
  "make_layer cx cy idx rotate_deg children =
     Layer (idx + 1)
       (if \<bar>rotate_deg\<bar> > 1 / 10 ^ 9 then Some (rotate_deg, cx, cy) else None)
       children"

text \<open>
  The loop \<^verbatim>\<open>for i in range(layers)\<close>, over the indices still to do: \<open>st\<close> is the
  generator's state and \<open>g\<close> the layer groups added to the pattern group so far.
\<close>

fun layers_loop ::
  "'g prng \<Rightarrow> options \<Rightarrow> svg_doc \<Rightarrow> real \<Rightarrow> real \<Rightarrow> real \<Rightarrow> real \<Rightarrow> real \<Rightarrow> real \<Rightarrow> string \<Rightarrow>
   'g plan_entry list \<Rightarrow> nat list \<Rightarrow> 'g \<Rightarrow> node list \<Rightarrow> (error + node list) option" where
  "layers_loop R opts svg cx cy r_outer r_inner base_stroke base_opacity stroke_color plan [] st g =
     Some (Inr g)"
| "layers_loop R opts svg cx cy r_outer r_inner base_stroke base_opacity stroke_color plan (i # rest) st g =
     (case resolve_layer R opts svg base_stroke base_opacity plan i st of
        Inl e \<Rightarrow> Some (Inl e)
      | Inr ls \<Rightarrow>
          (case draw_one opts svg cx cy r_outer r_inner (ls_ptype ls) (ls_stroke ls) stroke_color
                  (ls_opacity ls) (ls_overrides ls) of
             None \<Rightarrow> None
           | Some (Inl e) \<Rightarrow> Some (Inl e)
           | Some (Inr shapes) \<Rightarrow>
               layers_loop R opts svg cx cy r_outer r_inner base_stroke base_opacity stroke_color
                 plan rest (ls_rnd ls) (g @ [make_layer cx cy i (ls_rotation ls) shapes])))"

subsection \<open>The effect\<close>

text \<open>
  What \<^verbatim>\<open>effect\<close> adds to the document: the root group (label and id), the clip path
  put into \<^verbatim>\<open>defs\<close> and referenced by the pattern group (its id and circle), the
  children of the pattern group, and the outline circle added last to the root group.
\<close>

record dial_tree =
  dt_label :: string
  dt_id :: string
  dt_pattern_id :: string
  dt_clip :: "(string \<times> real \<times> real \<times> real) option"
  dt_pattern :: "node list"
  dt_outline :: "node option"

text \<open>
  \<open>uuid_hex\<close> is \<^verbatim>\<open>uuid.uuid4().hex\<close>, the one value \<^verbatim>\<open>effect\<close> takes from outside its
  options and document.
\<close>

definition effect :: "'g prng \<Rightarrow> options \<Rightarrow> svg_doc \<Rightarrow> string \<Rightarrow> (error + dial_tree) option" where
  "effect R opts svg uuid_hex =
     (let (cx, cy) = get_doc_center svg;
          outline_w_mm = opt_outline_stroke_mm opts;
          dial_r_mm = (opt_dial_diameter_mm opts -
                        (if opt_outline_compensate_stroke opts then outline_w_mm else 0)) / 2;
          r_outer = mm_to_uu svg dial_r_mm;
          r_inner = mm_to_uu svg (max 0 (opt_inner_radius_mm opts));
          gid = (if opt_group_name opts = [] then ''dial-pattern'' else opt_group_name opts);
          clip = (if opt_clip_to_circle opts
                  then Some (gid @ ''-clip-'' @ take 6 uuid_hex, cx, cy, r_outer)
                  else None);
          base_stroke = mm_to_uu svg (opt_stroke_mm opts);
          base_opacity = opt_stroke_opacity opts;
          stroke_color = opt_stroke_color opts;
          rnd = prng_seed R (opt_seed opts);
          drawn = (if \<not> opt_auto_complex opts
                   then draw_one opts svg cx cy r_outer r_inner (opt_pattern_type opts)
                          base_stroke stroke_color base_opacity no_overrides
                   else (let (plan, layers) = resolve_plan R opts svg
                         in layers_loop R opts svg cx cy r_outer r_inner base_stroke base_opacity
                              stroke_color plan [0..<nat layers] rnd []));
          outline = (if opt_draw_outline opts
                     then Some (Circle cx cy r_outer
                            \<lparr>st_fill = ''none'', st_stroke = ''#000000'',
                             st_stroke_width = mm_to_uu svg outline_w_mm,
                             st_stroke_opacity = None, st_stroke_linecap = None,
                             st_stroke_linejoin = None\<rparr>)
                     else None)
      in case drawn of
           None \<Rightarrow> None
         | Some (Inl e) \<Rightarrow> Some (Inl e)
         | Some (Inr children) \<Rightarrow>
             Some (Inr \<lparr>dt_label = gid, dt_id = gid, dt_pattern_id = gid @ ''-pattern'',
                        dt_clip = clip, dt_pattern = children, dt_outline = outline\<rparr>))"

text \<open>
  Two trees with the same geometry: equal in everything but the id string of the clip
  path.
\<close>

definition same_geometry :: "dial_tree \<Rightarrow> dial_tree \<Rightarrow> bool" where
  "same_geometry t1 t2 \<longleftrightarrow>
     dt_label t1 = dt_label t2 \<and> dt_id t1 = dt_id t2 \<and> dt_pattern_id t1 = dt_pattern_id t2
     \<and> map_option snd (dt_clip t1) = map_option snd (dt_clip t2)
     \<and> dt_pattern t1 = dt_pattern t2 \<and> dt_outline t1 = dt_outline t2"

section \<open>Double rounding\<close>

lemma pow2_powr: "pow2 e = 2 powr (of_int e)"
  by (simp add: pow2_def powr_real_of_int field_simps)

lemma pow2_pos: "0 < pow2 e"
  by (simp add: pow2_def)

lemma floor_log2_eq:
  assumes "pow2 e \<le> \<bar>x\<bar>" and "\<bar>x\<bar> < pow2 (e + 1)"
  shows "\<lfloor>log 2 \<bar>x\<bar>\<rfloor> = e"
proof -
  have pos: "0 < \<bar>x\<bar>" using assms(1) pow2_pos [of e] by linarith
  have "of_int e \<le> log 2 \<bar>x\<bar>"
    using assms(1) pos by (simp add: le_log_iff pow2_powr)
  moreover have "log 2 \<bar>x\<bar> < of_int e + 1"
    using assms(2) pos by (simp add: log_less_iff pow2_powr)
  ultimately show ?thesis by (rule floor_unique)
qed

lemma fl_eval:
  assumes "pow2 e \<le> \<bar>x\<bar>" and "\<bar>x\<bar> < pow2 (e + 1)" and "rne (x / pow2 (e - 52)) = m"
  shows "fl x = of_int m * pow2 (e - 52)"
proof -
  have "x \<noteq> 0" using assms(1) pow2_pos [of e] by auto
  then show ?thesis
    unfolding fl_def Let_def floor_log2_eq [OF assms(1,2)] assms(3) by simp
qed

lemma rne_nonneg: "0 \<le> x \<Longrightarrow> 0 \<le> rne x"
  by (simp add: rne_def Let_def)

lemma fl_nonneg: "0 \<le> x \<Longrightarrow> 0 \<le> fl x"
proof (cases "x = 0")
  case True
  then show ?thesis by (simp add: fl_def)
next
  case False
  assume "0 \<le> x"
  then have "0 \<le> x / pow2 (\<lfloor>log 2 \<bar>x\<bar>\<rfloor> - 52)"
    using pow2_pos [of "\<lfloor>log 2 \<bar>x\<bar>\<rfloor> - 52"] by simp
  then have "0 \<le> rne (x / pow2 (\<lfloor>log 2 \<bar>x\<bar>\<rfloor> - 52))" by (rule rne_nonneg)
  then show ?thesis
    using False pow2_pos [of "\<lfloor>log 2 \<bar>x\<bar>\<rfloor> - 52"] by (simp add: fl_def Let_def)
qed

text \<open>The doubles of the literals \<^verbatim>\<open>0.10\<close>, \<^verbatim>\<open>2.2\<close> and \<^verbatim>\<open>1.1\<close>.\<close>

lemma fl_tenth: "fl (1 / 10) = 3602879701896397 / 2 ^ 55"
  by (rule fl_eval [where e = "- 4" and m = 7205759403792794, THEN trans])
     (simp_all add: pow2_def rne_def Let_def)

lemma fl_2_2: "fl (22 / 10) = 2476979795053773 / 2 ^ 50"
  by (rule fl_eval [where e = 1 and m = 4953959590107546, THEN trans])
     (simp_all add: pow2_def rne_def Let_def)

lemma fl_1_1: "fl (11 / 10) = 2476979795053773 / 2 ^ 51"
  by (rule fl_eval [where e = 0 and m = 4953959590107546, THEN trans])
     (simp_all add: pow2_def rne_def Let_def)

text \<open>\<^verbatim>\<open>1300 * (1.0 + 0.10 * 4)\<close> is the double \<open>1819.9999999999998\<close>.\<close>

lemma points_product_1300_4:
  "fl (fl (real_of_int 1300) * fl (1 + fl (fl (1 / 10) * fl (real 4)))) =
   8004444650209279 / 2 ^ 42"
proof -
  have i: "fl (real 4) = 4"
    by (rule fl_eval [where e = 2 and m = 4503599627370496, THEN trans])
       (simp_all add: pow2_def rne_def Let_def)
  have b: "fl (3602879701896397 / 2 ^ 55 * 4) = 3602879701896397 / 2 ^ 53"
    by (rule fl_eval [where e = "- 2" and m = 7205759403792794, THEN trans])
       (simp_all add: pow2_def rne_def Let_def)
  have c: "fl (1 + 3602879701896397 / 2 ^ 53) = 3152519739159347 / 2 ^ 51"
    by (rule fl_eval [where e = 0 and m = 6305039478318694, THEN trans])
       (simp_all add: pow2_def rne_def Let_def)
  have p: "fl (real_of_int 1300) = 1300"
    by (rule fl_eval [where e = 10 and m = 5717460464435200, THEN trans])
       (simp_all add: pow2_def rne_def Let_def)
  have d: "fl (1300 * (3152519739159347 / 2 ^ 51)) = 8004444650209279 / 2 ^ 42"
    by (rule fl_eval [where e = 10 and m = 8004444650209279, THEN trans])
       (simp_all add: pow2_def rne_def Let_def)
  show ?thesis unfolding fl_tenth i b c p d ..
qed

text \<open>\<^verbatim>\<open>1208 * (1.0 + 0.10 * 1)\<close> is the double \<open>1328.8000000000002\<close>.\<close>

lemma points_product_1208_1:
  "fl (fl (real_of_int 1208) * fl (1 + fl (fl (1 / 10) * fl (real 1)))) =
   1461031050988749 / 2 ^ 40"
proof -
  have i: "fl (real 1) = 1"
    by (rule fl_eval [where e = 0 and m = 4503599627370496, THEN trans])
       (simp_all add: pow2_def rne_def Let_def)
  have b: "fl (3602879701896397 / 2 ^ 55 * 1) = 3602879701896397 / 2 ^ 55"
    by (rule fl_eval [where e = "- 4" and m = 7205759403792794, THEN trans])
       (simp_all add: pow2_def rne_def Let_def)
  have c: "fl (1 + 3602879701896397 / 2 ^ 55) = 2476979795053773 / 2 ^ 51"
    by (rule fl_eval [where e = 0 and m = 4953959590107546, THEN trans])
       (simp_all add: pow2_def rne_def Let_def)
  have p: "fl (real_of_int 1208) = 1208"
    by (rule fl_eval [where e = 10 and m = 5312840185413632, THEN trans])
       (simp_all add: pow2_def rne_def Let_def)
  have d: "fl (1208 * (2476979795053773 / 2 ^ 51)) = 1461031050988749 / 2 ^ 40"
    by (rule fl_eval [where e = 10 and m = 5844124203954996, THEN trans])
       (simp_all add: pow2_def rne_def Let_def)
  show ?thesis unfolding fl_tenth i b c p d ..
qed

text \<open>
  \<^verbatim>\<open>10 * 2.2\<close> is the double \<open>22.0\<close> and \<^verbatim>\<open>22.0 / 1.0\<close> is \<open>22.0\<close>; \<^verbatim>\<open>15 * 2.2\<close> is
  \<open>33.0\<close> and \<^verbatim>\<open>33.0 / 1.1\<close> is the double \<open>29.999999999999996\<close>.
\<close>

lemma hatch_size_10: "hatch_size 10 = 22"
  unfolding hatch_size_def fl_2_2
  by (rule fl_eval [where e = 4 and m = 6192449487634432, THEN trans])
     (simp_all add: pow2_def rne_def Let_def)

lemma hatch_count_10_1: "hatch_count (hatch_size 10) 1 = 25"
proof -
  have q: "fl (22 / 1) = 22"
    by (rule fl_eval [where e = 4 and m = 6192449487634432, THEN trans])
       (simp_all add: pow2_def rne_def Let_def)
  show ?thesis unfolding hatch_count_def hatch_size_10 q by (simp add: py_int_def)
qed

lemma hatch_size_15: "hatch_size 15 = 33"
  unfolding hatch_size_def fl_2_2
  by (rule fl_eval [where e = 5 and m = 4644337115725824, THEN trans])
     (simp_all add: pow2_def rne_def Let_def)

lemma hatch_count_15_1_1: "hatch_count (hatch_size 15) (fl (11 / 10)) = 32"
proof -
  have q: "fl (33 / (2476979795053773 / 2 ^ 51)) = 8444249301319679 / 2 ^ 48"
    by (rule fl_eval [where e = 4 and m = 8444249301319679, THEN trans])
       (simp_all add: pow2_def rne_def Let_def)
  show ?thesis unfolding hatch_count_def hatch_size_15 fl_1_1 q by (simp add: py_int_def)
qed

section \<open>The concentric generator\<close>

lemma upt_0_Suc_shift: "[0..<Suc k] = 0 # map Suc [0..<k]"
  by (simp only: map_Suc_upt upt_conv_Cons [OF zero_less_Suc])

lemma ring_list_shift:
  "map (\<lambda>j. Circle cx cy (r + real j * spacing) s) [0..<Suc k] =
   Circle cx cy r s # map (\<lambda>j. Circle cx cy (r + spacing + real j * spacing) s) [0..<k]"
  by (simp only: upt_0_Suc_shift) (simp add: o_def algebra_simps)

lemma concentric_loop_stop:
  "\<not> r \<le> r_outer + 1 / 10 ^ 9 \<Longrightarrow> concentric_loop cx cy r_outer spacing s r g = Some g"
  by (subst concentric_loop.simps) simp

lemma concentric_loop_step:
  "r \<le> r_outer + 1 / 10 ^ 9 \<Longrightarrow>
   concentric_loop cx cy r_outer spacing s r g =
   concentric_loop cx cy r_outer spacing s (r + spacing) (g @ [Circle cx cy r s])"
  by (subst concentric_loop.simps) simp

lemma concentric_loop_never_returns:
  assumes ret: "concentric_loop cx cy r_outer spacing s r g = Some y"
  shows "\<not> (spacing \<le> 0 \<and> r \<le> r_outer + 1 / 10 ^ 9)"
proof (rule concentric_loop.raw_induct
    [where P = "\<lambda>cx cy r_outer spacing s r g y. \<not> (spacing \<le> 0 \<and> r \<le> r_outer + 1 / 10 ^ 9)",
     OF _ ret])
  fix loop :: "real \<Rightarrow> real \<Rightarrow> real \<Rightarrow> real \<Rightarrow> style \<Rightarrow> real \<Rightarrow> node list \<Rightarrow> node list option"
  fix cx cy r_outer spacing s r g y
  assume IH: "\<And>cx cy r_outer spacing s r g y.
           loop cx cy r_outer spacing s r g = Some y \<Longrightarrow>
           \<not> (spacing \<le> 0 \<and> r \<le> r_outer + 1 / 10 ^ 9)"
  assume body: "(if r \<le> r_outer + 1 / 10 ^ 9
                 then loop cx cy r_outer spacing s (r + spacing) (g @ [Circle cx cy r s])
                 else Some g) = Some y"
  show "\<not> (spacing \<le> 0 \<and> r \<le> r_outer + 1 / 10 ^ 9)"
  proof
    assume a: "spacing \<le> 0 \<and> r \<le> r_outer + 1 / 10 ^ 9"
    with body have "loop cx cy r_outer spacing s (r + spacing) (g @ [Circle cx cy r s]) = Some y"
      by simp
    from IH [OF this] a show False by linarith
  qed
qed

lemma concentric_loop_diverges:
  "spacing \<le> 0 \<Longrightarrow> r \<le> r_outer + 1 / 10 ^ 9 \<Longrightarrow>
   concentric_loop cx cy r_outer spacing s r g = None"
  using concentric_loop_never_returns [of cx cy r_outer spacing s r g]
  by (cases "concentric_loop cx cy r_outer spacing s r g") auto

lemma pattern_concentric_diverges:
  "spacing \<le> 0 \<Longrightarrow> max 0 r_inner \<le> r_outer + 1 / 10 ^ 9 \<Longrightarrow>
   pattern_concentric cx cy r_outer r_inner spacing stroke_w stroke_color opacity = None"
  unfolding pattern_concentric_def by (rule concentric_loop_diverges)

lemma beyond_outer:
  assumes "\<not> r \<le> (b::real)" and "0 < spacing"
  shows "\<not> r + real j * spacing \<le> b"
proof -
  have "0 \<le> real j * spacing" using assms(2) by simp
  then show ?thesis using assms(1) by linarith
qed

lemma concentric_loop_steps:
  "r_outer + 1 / 10 ^ 9 < r + real n * spacing \<Longrightarrow> 0 < spacing \<Longrightarrow>
   \<exists>k\<le>n. concentric_loop cx cy r_outer spacing s r g =
            Some (g @ map (\<lambda>j. Circle cx cy (r + real j * spacing) s) [0..<k])
        \<and> (\<forall>j. j < k \<longleftrightarrow> r + real j * spacing \<le> r_outer + 1 / 10 ^ 9)"
proof (induction n arbitrary: r g)
  case 0
  then have stop: "\<not> r \<le> r_outer + 1 / 10 ^ 9" by simp
  have "concentric_loop cx cy r_outer spacing s r g =
        Some (g @ map (\<lambda>j. Circle cx cy (r + real j * spacing) s) [0..<0])"
    using concentric_loop_stop [OF stop] by simp
  moreover have "\<forall>j. j < (0::nat) \<longleftrightarrow> r + real j * spacing \<le> r_outer + 1 / 10 ^ 9"
    using beyond_outer [OF stop \<open>0 < spacing\<close>] by simp
  ultimately show ?case by blast
next
  case (Suc n)
  show ?case
  proof (cases "r \<le> r_outer + 1 / 10 ^ 9")
    case False
    have "concentric_loop cx cy r_outer spacing s r g =
          Some (g @ map (\<lambda>j. Circle cx cy (r + real j * spacing) s) [0..<0])"
      using concentric_loop_stop [OF False] by simp
    moreover have "\<forall>j. j < (0::nat) \<longleftrightarrow> r + real j * spacing \<le> r_outer + 1 / 10 ^ 9"
      using beyond_outer [OF False \<open>0 < spacing\<close>] by simp
    ultimately show ?thesis by blast
  next
    case True
    have "r_outer + 1 / 10 ^ 9 < (r + spacing) + real n * spacing"
      using Suc.prems(1) by (simp add: algebra_simps)
    from Suc.IH [OF this \<open>0 < spacing\<close>, of "g @ [Circle cx cy r s]"]
    obtain k where k: "k \<le> n"
      and run: "concentric_loop cx cy r_outer spacing s (r + spacing) (g @ [Circle cx cy r s]) =
                Some ((g @ [Circle cx cy r s]) @
                      map (\<lambda>j. Circle cx cy (r + spacing + real j * spacing) s) [0..<k])"
      and incl: "\<And>j. j < k \<longleftrightarrow> r + spacing + real j * spacing \<le> r_outer + 1 / 10 ^ 9"
      by blast
    have "concentric_loop cx cy r_outer spacing s r g =
          Some (g @ map (\<lambda>j. Circle cx cy (r + real j * spacing) s) [0..<Suc k])"
      unfolding concentric_loop_step [OF True] run ring_list_shift by simp
    moreover have "\<forall>j. j < Suc k \<longleftrightarrow> r + real j * spacing \<le> r_outer + 1 / 10 ^ 9"
    proof
      fix j :: nat
      show "j < Suc k \<longleftrightarrow> r + real j * spacing \<le> r_outer + 1 / 10 ^ 9"
      proof (cases j)
        case 0
        then show ?thesis using True by simp
      next
        case (Suc i)
        have "r + real (Suc i) * spacing = r + spacing + real i * spacing"
          by (simp add: algebra_simps)
        then show ?thesis using incl [of i] Suc by (simp only: Suc_less_eq)
      qed
    qed
    moreover have "Suc k \<le> Suc n" using k by simp
    ultimately show ?thesis by blast
  qed
qed

lemma concentric_loop_returns:
  assumes "0 < spacing"
  shows "\<exists>k. concentric_loop cx cy r_outer spacing s r g =
            Some (g @ map (\<lambda>j. Circle cx cy (r + real j * spacing) s) [0..<k])
        \<and> (\<forall>j. j < k \<longleftrightarrow> r + real j * spacing \<le> r_outer + 1 / 10 ^ 9)"
proof -
  obtain n :: nat where "r_outer + 1 / 10 ^ 9 - r < real n * spacing"
    using ex_less_of_nat_mult [OF assms] by blast
  then have "r_outer + 1 / 10 ^ 9 < r + real n * spacing" by linarith
  from concentric_loop_steps [OF this assms] show ?thesis by blast
qed

lemma pattern_concentric_empty:
  assumes "r_outer + 1 / 10 ^ 9 < max 0 r_inner"
  shows "pattern_concentric cx cy r_outer r_inner spacing stroke_w stroke_color opacity = Some []"
proof -
  have "\<not> max 0 r_inner \<le> r_outer + 1 / 10 ^ 9" using assms by linarith
  then show ?thesis unfolding pattern_concentric_def by (rule concentric_loop_stop)
qed

text \<open>
  Claim C3 asks for an error and for termination when the spacing is not positive; the
  code gives neither. \<^verbatim>\<open>pattern_concentric\<close> has no check on the spacing, where the
  sunburst and guilloche generators clamp the parameters of their loops. With outer
  radius 10, inner radius 0 and spacing 0 the loop adds a circle of radius 0 on every
  pass and is never left: the call does not return, and it raises nothing. The same
  holds for the whole run with the default options, the pattern type concentric and a
  ring spacing of 0 mm.
\<close>

theorem concentric_zero_spacing_never_returns:
  "pattern_concentric 50 50 10 0 0 (1 / 10) ''#000000'' (1 / 2) = None
   \<and> draw_one default_options mm_doc 50 50 10 0 ''concentric'' (1 / 10) ''#000000'' (1 / 2)
        (no_overrides\<lparr>ov_ring_spacing := Some 0\<rparr>) = None
   \<and> effect lcg (default_options\<lparr>opt_pattern_type := ''concentric'', opt_ring_spacing_mm := 0\<rparr>)
        mm_doc ''0123456789abcdef0123456789abcdef'' = None"
proof (intro conjI)
  show hang: "pattern_concentric 50 50 10 0 0 (1 / 10) ''#000000'' (1 / 2) = None"
    by (rule pattern_concentric_diverges) simp_all
  show "draw_one default_options mm_doc 50 50 10 0 ''concentric'' (1 / 10) ''#000000'' (1 / 2)
        (no_overrides\<lparr>ov_ring_spacing := Some 0\<rparr>) = None"
    by (simp add: draw_one_def dict_get_def hang)
  have "pattern_concentric 50 50 (1419 / 100) 0 0 (1 / 10) ''#000000'' (35 / 100) = None"
    by (rule pattern_concentric_diverges) simp_all
  then show "effect lcg (default_options\<lparr>opt_pattern_type := ''concentric'',
        opt_ring_spacing_mm := 0\<rparr>) mm_doc ''0123456789abcdef0123456789abcdef'' = None"
    by (simp add: effect_def default_options_def get_doc_center_def mm_doc_def mm_to_uu_def
        draw_one_def dict_get_def no_overrides_def Let_def)
qed

text \<open>
  Claim C9. With outer radius 10, inner radius 0 and spacing 2 the generator returns
  exactly the six circles of radii 0, 2, 4, 6, 8, 10, in this order; with spacing 3 the
  four circles of radii 0, 3, 6, 9. In general, for a positive spacing, it returns the
  circles of radii \<open>max 0 r_inner + j * spacing\<close> for \<open>j = 0, \<dots>, k - 1\<close>, in this
  order, where a radius of this progression is among them exactly if it is at most
  \<open>r_outer + 1e-9\<close>.
\<close>

theorem concentric_ring_radii:
  "pattern_concentric cx cy 10 0 2 stroke_w stroke_color opacity =
     Some (map (\<lambda>r. Circle cx cy r (ring_style stroke_w stroke_color opacity)) [0, 2, 4, 6, 8, 10])
   \<and> pattern_concentric cx cy 10 0 3 stroke_w stroke_color opacity =
     Some (map (\<lambda>r. Circle cx cy r (ring_style stroke_w stroke_color opacity)) [0, 3, 6, 9])
   \<and> (0 < spacing \<longrightarrow>
       (\<exists>k. pattern_concentric cx cy r_outer r_inner spacing stroke_w stroke_color opacity =
              Some (map (\<lambda>j. Circle cx cy (max 0 r_inner + real j * spacing)
                               (ring_style stroke_w stroke_color opacity)) [0..<k])
          \<and> (\<forall>j. j < k \<longleftrightarrow> max 0 r_inner + real j * spacing \<le> r_outer + 1 / 10 ^ 9)))"
proof (intro conjI impI)
  show "pattern_concentric cx cy 10 0 2 stroke_w stroke_color opacity =
     Some (map (\<lambda>r. Circle cx cy r (ring_style stroke_w stroke_color opacity)) [0, 2, 4, 6, 8, 10])"
    by (simp add: pattern_concentric_def concentric_loop.simps)
  show "pattern_concentric cx cy 10 0 3 stroke_w stroke_color opacity =
     Some (map (\<lambda>r. Circle cx cy r (ring_style stroke_w stroke_color opacity)) [0, 3, 6, 9])"
    by (simp add: pattern_concentric_def concentric_loop.simps)
  assume "0 < spacing"
  from concentric_loop_returns [OF this, of cx cy r_outer
      "ring_style stroke_w stroke_color opacity" "max 0 r_inner" "[]"]
  show "\<exists>k. pattern_concentric cx cy r_outer r_inner spacing stroke_w stroke_color opacity =
              Some (map (\<lambda>j. Circle cx cy (max 0 r_inner + real j * spacing)
                               (ring_style stroke_w stroke_color opacity)) [0..<k])
          \<and> (\<forall>j. j < k \<longleftrightarrow> max 0 r_inner + real j * spacing \<le> r_outer + 1 / 10 ^ 9)"
    unfolding pattern_concentric_def by simp
qed

text \<open>
  The general part at outer radius 10, inner radius -1 (clamped to 0) and spacing 3.
\<close>

theorem concentric_ring_radii_witness:
  "(0::real) < 3 \<and>
   (\<exists>k. pattern_concentric 0 0 10 (- 1) 3 (1 / 10) ''#000000'' (1 / 2) =
          Some (map (\<lambda>j. Circle 0 0 (real j * 3) (ring_style (1 / 10) ''#000000'' (1 / 2))) [0..<k])
       \<and> (\<forall>j. j < k \<longleftrightarrow> real j * 3 \<le> 10 + 1 / 10 ^ 9))"
  using concentric_ring_radii [of 0 0 "1 / 10" "''#000000''" "1 / 2" 3 10 "- 1"]
  by simp

section \<open>The guilloche generator\<close>

lemma guilloche_samples_length:
  "length (guilloche_samples r_outer lobes amplitude points) = nat (max 200 points) + 1"
  by (simp add: guilloche_samples_def Let_def nat_add_distrib)

lemma guilloche_samples_nth:
  "i \<le> nat (max 200 points) \<Longrightarrow>
   guilloche_samples r_outer lobes amplitude points ! i =
   guilloche_sample (max 0 (r_outer - amplitude)) amplitude (max 2 lobes) (max 200 points) i"
proof -
  assume le: "i \<le> nat (max 200 points)"
  have n: "nat (max 200 points + 1) = Suc (nat (max 200 points))" by simp
  have "i < length [0..<Suc (nat (max 200 points))]" using le by simp
  then have "map (guilloche_sample (max 0 (r_outer - amplitude)) amplitude (max 2 lobes)
                    (max 200 points)) [0..<Suc (nat (max 200 points))] ! i =
             guilloche_sample (max 0 (r_outer - amplitude)) amplitude (max 2 lobes)
                    (max 200 points) ([0..<Suc (nat (max 200 points))] ! i)"
    by (rule nth_map)
  also have "[0..<Suc (nat (max 200 points))] ! i = i"
    using le by (simp del: upt_Suc)
  finally show ?thesis unfolding guilloche_samples_def Let_def n .
qed

lemma guilloche_sample_bound:
  "max 0 (r_outer - amplitude) - \<bar>amplitude\<bar> \<le>
   fst (guilloche_sample (max 0 (r_outer - amplitude)) amplitude lobes points i)"
proof -
  let ?c = "cos (real_of_int lobes * (2 * pi * (real i / real_of_int points)))"
  have "\<bar>amplitude * ?c\<bar> \<le> \<bar>amplitude\<bar>"
    using abs_cos_le_one [of "real_of_int lobes * (2 * pi * (real i / real_of_int points))"]
    by (simp add: abs_mult mult_left_le)
  then show ?thesis by (simp add: guilloche_sample_def Let_def)
qed

lemma pattern_concentric_radii_nonneg:
  assumes "0 < spacing"
  shows "\<exists>g. pattern_concentric cx cy r_outer r_inner spacing stroke_w stroke_color opacity = Some g
           \<and> list_all (\<lambda>n. is_circle n \<and> 0 \<le> circle_r n) g"
proof -
  from concentric_loop_returns [OF assms, of cx cy r_outer
      "ring_style stroke_w stroke_color opacity" "max 0 r_inner" "[]"]
  obtain k where run: "pattern_concentric cx cy r_outer r_inner spacing stroke_w stroke_color opacity =
      Some (map (\<lambda>j. Circle cx cy (max 0 r_inner + real j * spacing)
                       (ring_style stroke_w stroke_color opacity)) [0..<k])"
    unfolding pattern_concentric_def by auto
  have "0 \<le> max 0 r_inner + real j * spacing" for j :: nat
  proof -
    have "0 \<le> real j * spacing" using assms by simp
    then show ?thesis by linarith
  qed
  then have "list_all (\<lambda>n. is_circle n \<and> 0 \<le> circle_r n)
               (map (\<lambda>j. Circle cx cy (max 0 r_inner + real j * spacing)
                       (ring_style stroke_w stroke_color opacity)) [0..<k])"
    by (simp add: list_all_iff)
  with run show ?thesis by blast
qed

text \<open>
  Claim C7, as the code has it. The base radius of the rosette is clamped to 0, and a
  sample radius \<open>base + amplitude * cos (lobes * t)\<close> is non-negative whenever
  \<open>\<bar>amplitude\<bar> \<le> base\<close> with \<open>base = max 0 (r_outer - amplitude)\<close>; for an amplitude
  \<open>\<ge> 0\<close> that is \<open>2 * amplitude \<le> r_outer\<close>. For a positive spacing the concentric
  generator returns, and returns only circles of non-negative radius; a negative inner
  radius gives the rings of inner radius 0.
\<close>

theorem radii_nonnegative:
  "(\<bar>amplitude\<bar> \<le> max 0 (r_outer - amplitude) \<longrightarrow>
      list_all (\<lambda>(r, ang_deg). 0 \<le> r) (guilloche_samples r_outer lobes amplitude points))
   \<and> (0 < spacing \<longrightarrow>
      (\<exists>g. pattern_concentric cx cy r_outer r_inner spacing stroke_w stroke_color opacity = Some g
          \<and> list_all (\<lambda>n. is_circle n \<and> 0 \<le> circle_r n) g))
   \<and> pattern_concentric cx cy r_outer r_inner spacing stroke_w stroke_color opacity =
     pattern_concentric cx cy r_outer (max 0 r_inner) spacing stroke_w stroke_color opacity"
proof (intro conjI impI)
  assume small: "\<bar>amplitude\<bar> \<le> max 0 (r_outer - amplitude)"
  have "0 \<le> fst (guilloche_sample (max 0 (r_outer - amplitude)) amplitude (max 2 lobes)
                    (max 200 points) i)" for i
    using guilloche_sample_bound [of r_outer amplitude "max 2 lobes" "max 200 points" i] small
    by linarith
  then show "list_all (\<lambda>(r, ang_deg). 0 \<le> r) (guilloche_samples r_outer lobes amplitude points)"
    by (simp add: guilloche_samples_def Let_def list_all_iff case_prod_unfold)
next
  assume "0 < spacing"
  then show "\<exists>g. pattern_concentric cx cy r_outer r_inner spacing stroke_w stroke_color opacity = Some g
          \<and> list_all (\<lambda>n. is_circle n \<and> 0 \<le> circle_r n) g"
    by (rule pattern_concentric_radii_nonneg)
next
  show "pattern_concentric cx cy r_outer r_inner spacing stroke_w stroke_color opacity =
     pattern_concentric cx cy r_outer (max 0 r_inner) spacing stroke_w stroke_color opacity"
    by (simp add: pattern_concentric_def)
qed

text \<open>
  At outer radius 10 with amplitude 1, and rings of spacing 2 from the inner radius -1.
\<close>

theorem radii_nonnegative_witness:
  "\<bar>1 :: real\<bar> \<le> max 0 (10 - 1) \<and> (0 :: real) < 2
   \<and> list_all (\<lambda>(r, ang_deg). 0 \<le> r) (guilloche_samples 10 12 1 1200)
   \<and> (\<exists>g. pattern_concentric 0 0 10 (- 1) 2 (1 / 10) ''#000000'' (1 / 2) = Some g
          \<and> list_all (\<lambda>n. is_circle n \<and> 0 \<le> circle_r n) g)"
proof -
  note inst = radii_nonnegative [of 1 10 12 1200 2 0 0 "- 1" "1 / 10" "''#000000''" "1 / 2"]
  have small: "\<bar>1 :: real\<bar> \<le> max 0 (10 - 1)" by simp
  have pos: "(0 :: real) < 2" by simp
  from inst small have "list_all (\<lambda>(r, ang_deg). 0 \<le> r) (guilloche_samples 10 12 1 1200)"
    by blast
  moreover from inst pos
  have "\<exists>g. pattern_concentric 0 0 10 (- 1) 2 (1 / 10) ''#000000'' (1 / 2) = Some g
          \<and> list_all (\<lambda>n. is_circle n \<and> 0 \<le> circle_r n) g"
    by blast
  ultimately show ?thesis using small pos by blast
qed

text \<open>
  Against C7 as stated: with outer radius 10, amplitude 6, 2 lobes and 200 points the
  base radius is 4, and sample 50 (at 90 degrees, where \<open>cos (lobes * t) = -1\<close>) has
  the radius -2.
\<close>

theorem guilloche_radius_negative_counterexample:
  "guilloche_samples 10 2 6 200 ! 50 = (- 2, 90)"
  by (simp add: guilloche_samples_nth guilloche_sample_def degrees_def)

lemma pattern_guilloche_clamped:
  "pattern_guilloche cx cy r_outer lobes amplitude points stroke_w stroke_color opacity =
   pattern_guilloche cx cy r_outer (max 2 lobes) amplitude (max 200 points)
     stroke_w stroke_color opacity"
  by (simp add: pattern_guilloche_def guilloche_samples_def)

text \<open>
  Claim C2, as the code has it. \<^verbatim>\<open>pattern_guilloche\<close> raises nothing: a lobe count below
  2 is replaced by 2 and a point count below 200 by 200, so every call draws what the
  call with the clamped values draws, one path through \<open>max 200 points + 1\<close> samples;
  \<^verbatim>\<open>_draw_one\<close> hands that path on as a normal result.
\<close>

theorem guilloche_clamps_parameters:
  "pattern_guilloche cx cy r_outer lobes amplitude points stroke_w stroke_color opacity =
     pattern_guilloche cx cy r_outer (max 2 lobes) amplitude (max 200 points)
       stroke_w stroke_color opacity
   \<and> (\<exists>pts. pattern_guilloche cx cy r_outer lobes amplitude points stroke_w stroke_color opacity =
               [Path pts (rosette_style stroke_w stroke_color opacity)]
            \<and> length pts = nat (max 200 points) + 1)
   \<and> draw_one opts svg cx cy r_outer r_inner ''guilloche'' stroke_w stroke_color opacity
        (no_overrides\<lparr>ov_lobes := Some lobes, ov_amplitude := Some amplitude,
                       ov_points := Some points\<rparr>) =
      Some (Inr (pattern_guilloche cx cy r_outer lobes amplitude points
                   stroke_w stroke_color opacity))"
proof (intro conjI)
  show "pattern_guilloche cx cy r_outer lobes amplitude points stroke_w stroke_color opacity =
     pattern_guilloche cx cy r_outer (max 2 lobes) amplitude (max 200 points)
       stroke_w stroke_color opacity"
    by (rule pattern_guilloche_clamped)
  show "\<exists>pts. pattern_guilloche cx cy r_outer lobes amplitude points stroke_w stroke_color opacity =
               [Path pts (rosette_style stroke_w stroke_color opacity)]
            \<and> length pts = nat (max 200 points) + 1"
    by (simp add: pattern_guilloche_def guilloche_samples_length)
  show "draw_one opts svg cx cy r_outer r_inner ''guilloche'' stroke_w stroke_color opacity
        (no_overrides\<lparr>ov_lobes := Some lobes, ov_amplitude := Some amplitude,
                       ov_points := Some points\<rparr>) =
      Some (Inr (pattern_guilloche cx cy r_outer lobes amplitude points
                   stroke_w stroke_color opacity))"
    by (simp add: draw_one_def dict_get_def no_overrides_def)
qed

text \<open>
  Against C2 as stated: with 1 lobe and 100 points (both below the bounds) the call
  succeeds and draws the rosette of 2 lobes and 200 points, a path through 201 samples.
\<close>

theorem guilloche_no_invalid_parameter_counterexample:
  "draw_one default_options mm_doc 50 50 10 0 ''guilloche'' (1 / 10) ''#000000'' (1 / 2)
     (no_overrides\<lparr>ov_lobes := Some 1, ov_amplitude := Some 1, ov_points := Some 100\<rparr>) =
   Some (Inr (pattern_guilloche 50 50 10 2 1 200 (1 / 10) ''#000000'' (1 / 2)))
   \<and> length (guilloche_samples 10 1 1 100) = 201"
  by (simp add: draw_one_def dict_get_def no_overrides_def guilloche_samples_length
      pattern_guilloche_clamped [of 50 50 10 1 1 100])

text \<open>
  Claim C10. With \<open>points = 360\<close>, whatever the lobes, amplitude and outer radius, the
  generator samples 361 polar points and draws exactly one path through the 361
  corresponding points. The first and the last sample have the same radius; their
  angles are 0 and 360 degrees, one full turn apart, so they are the same direction and
  the first and the last point of the path are the same point. (Reals are exact, so
  the distances are 0, below the tolerance \<open>1e-6\<close>.)
\<close>

theorem guilloche_closure:
  "length (guilloche_samples r_outer lobes amplitude 360) = 361
   \<and> (\<exists>pts. pattern_guilloche cx cy r_outer lobes amplitude 360 stroke_w stroke_color opacity =
               [Path pts (rosette_style stroke_w stroke_color opacity)]
            \<and> length pts = 361
            \<and> \<bar>fst (pts ! 360) - fst (pts ! 0)\<bar> \<le> 1 / 10 ^ 6
            \<and> \<bar>snd (pts ! 360) - snd (pts ! 0)\<bar> \<le> 1 / 10 ^ 6)
   \<and> \<bar>fst (guilloche_samples r_outer lobes amplitude 360 ! 360) -
       fst (guilloche_samples r_outer lobes amplitude 360 ! 0)\<bar> \<le> 1 / 10 ^ 6
   \<and> snd (guilloche_samples r_outer lobes amplitude 360 ! 0) = 0
   \<and> snd (guilloche_samples r_outer lobes amplitude 360 ! 360) = 360
   \<and> sin (radians (snd (guilloche_samples r_outer lobes amplitude 360 ! 360))) =
     sin (radians (snd (guilloche_samples r_outer lobes amplitude 360 ! 0)))
   \<and> cos (radians (snd (guilloche_samples r_outer lobes amplitude 360 ! 360))) =
     cos (radians (snd (guilloche_samples r_outer lobes amplitude 360 ! 0)))"
proof -
  let ?S = "guilloche_samples r_outer lobes amplitude 360"
  let ?base = "max 0 (r_outer - amplitude)"
  have len: "length ?S = 361" by (simp add: guilloche_samples_length)
  have first: "?S ! 0 = (?base + amplitude, 0)"
    by (simp add: guilloche_samples_nth guilloche_sample_def degrees_def)
  have "cos (real_of_int (max 2 lobes) * (2 * pi)) = 1"
    using cos_int_2pin [of "max 2 lobes"] by (simp add: mult.commute)
  then have last: "?S ! 360 = (?base + amplitude, 360)"
    by (simp add: guilloche_samples_nth guilloche_sample_def degrees_def)
  have turn: "sin (radians 360) = sin (radians 0)" "cos (radians 360) = cos (radians 0)"
    by (simp_all add: radians_def)
  have p0: "polar cx cy (?base + amplitude) 0 = (cx, cy - (?base + amplitude))"
    by (simp add: polar_def radians_def)
  have p360: "polar cx cy (?base + amplitude) 360 = (cx, cy - (?base + amplitude))"
    by (simp add: polar_def radians_def)
  have pts0: "map (\<lambda>(r, ang_deg). polar cx cy r ang_deg) ?S ! 0 = (cx, cy - (?base + amplitude))"
    using len first p0 by simp
  have pts360: "map (\<lambda>(r, ang_deg). polar cx cy r ang_deg) ?S ! 360 = (cx, cy - (?base + amplitude))"
    using len last p360 by simp
  have "pattern_guilloche cx cy r_outer lobes amplitude 360 stroke_w stroke_color opacity =
          [Path (map (\<lambda>(r, ang_deg). polar cx cy r ang_deg) ?S)
                (rosette_style stroke_w stroke_color opacity)]"
    by (simp add: pattern_guilloche_def)
  moreover have "length (map (\<lambda>(r, ang_deg). polar cx cy r ang_deg) ?S) = 361"
    using len by simp
  ultimately show ?thesis using len first last pts0 pts360 turn by simp
qed

section \<open>The crosshatch generator\<close>

lemma hatch_range_set: "set (hatch_range c) = {(- c) div 2 .. c div 2}"
  by (simp add: hatch_range_def)

lemma hatch_range_length: "length (hatch_range c) = nat (c + 1)"
proof -
  have "c div 2 - (- c) div 2 = c" by presburger
  then show ?thesis by (simp add: hatch_range_def)
qed

lemma hatch_offsets_mem:
  assumes "spacing \<noteq> 0"
  shows "real_of_int j * spacing \<in> set (hatch_offsets r_outer spacing) \<longleftrightarrow>
         j \<in> set (hatch_range (hatch_count (hatch_size r_outer) spacing))"
proof -
  have "real_of_int j * spacing = real_of_int i * spacing \<longleftrightarrow> j = i" for i
    using assms by simp
  then show ?thesis unfolding hatch_offsets_def by (auto simp: image_iff)
qed

lemma hatch_offsets_neg_mem:
  assumes "spacing \<noteq> 0"
  shows "- (real_of_int j * spacing) \<in> set (hatch_offsets r_outer spacing) \<longleftrightarrow>
         - j \<in> set (hatch_range (hatch_count (hatch_size r_outer) spacing))"
  using hatch_offsets_mem [OF assms, of "- j" r_outer] by simp

lemma hatch_range_even_symmetric:
  assumes "even c" and "i \<in> set (hatch_range c)"
  shows "- i \<in> set (hatch_range c)"
  using assms unfolding hatch_range_set by (simp; presburger)

lemma hatch_range_odd_lowest:
  assumes "odd c" and "0 < c"
  shows "(- c) div 2 \<in> set (hatch_range c)" and "- ((- c) div 2) \<notin> set (hatch_range c)"
  using assms unfolding hatch_range_set by (simp; presburger)+

lemma hatch_range_odd_others:
  assumes "odd c" and "i \<in> set (hatch_range c)" and "i \<noteq> (- c) div 2"
  shows "- i \<in> set (hatch_range c)"
  using assms unfolding hatch_range_set by (simp; presburger)

lemma hatch_count_floor:
  assumes "0 < spacing" and "0 \<le> r_outer"
  shows "hatch_count (hatch_size r_outer) spacing =
         \<lfloor>fl (fl (r_outer * fl (22 / 10)) / spacing)\<rfloor> + 3"
proof -
  have "0 \<le> fl (22 / 10)" by (rule fl_nonneg) simp
  then have "0 \<le> r_outer * fl (22 / 10)" using assms(2) by simp
  then have "0 \<le> fl (r_outer * fl (22 / 10))" by (rule fl_nonneg)
  then have "0 \<le> fl (r_outer * fl (22 / 10)) / spacing" using assms(1) by simp
  then have "0 \<le> fl (fl (r_outer * fl (22 / 10)) / spacing)" by (rule fl_nonneg)
  then show ?thesis by (simp add: hatch_count_def hatch_size_def py_int_def)
qed

lemma add_set_offsets:
  "spacing \<noteq> 0 \<Longrightarrow>
   add_set cx cy r_outer spacing s theta_deg =
   Inr (map (hatch_line cx cy (hatch_size r_outer / 2) (cos (radians theta_deg))
               (sin (radians theta_deg)) s) (hatch_offsets r_outer spacing))"
  by (simp add: add_set_def hatch_offsets_def Let_def o_def)

text \<open>
  Claim C5, as the code has it. For a positive spacing each family of lines is drawn
  from \<open>count = int(size / spacing) + 3\<close> with \<open>size = r_outer * 2.2\<close>, the product and
  the quotient being the rounded doubles; for an outer radius \<open>\<ge> 0\<close> the count is the
  floor of that double quotient plus 3, which can be one below the floor of the exact
  quotient (outer radius 15, spacing 1.1: 32, not 33). The offsets are \<open>i * spacing\<close> for
  the integers \<open>i\<close> from \<open>(- count) div 2\<close> to \<open>count div 2\<close>, in increasing order:
  \<open>count + 1\<close> lines. For an even count every offset has its mirror image. For an odd
  positive count the lowest offset \<open>((- count) div 2) * spacing\<close> has none, and every
  other offset has one.
\<close>

theorem crosshatch_offsets:
  assumes "0 < spacing"
  shows
    "add_set cx cy r_outer spacing s theta_deg =
       Inr (map (hatch_line cx cy (hatch_size r_outer / 2) (cos (radians theta_deg))
                   (sin (radians theta_deg)) s) (hatch_offsets r_outer spacing))
     \<and> (let count = hatch_count (hatch_size r_outer) spacing;
             offs = hatch_offsets r_outer spacing;
             lowest = real_of_int ((- count) div 2) * spacing
         in offs = map (\<lambda>i. real_of_int i * spacing) [(- count) div 2 .. count div 2]
          \<and> length offs = nat (count + 1)
          \<and> (0 \<le> r_outer \<longrightarrow>
                count = \<lfloor>fl (fl (r_outer * fl (22 / 10)) / spacing)\<rfloor> + 3)
          \<and> (even count \<longrightarrow> (\<forall>d \<in> set offs. - d \<in> set offs))
          \<and> (odd count \<and> 0 < count \<longrightarrow>
                lowest \<in> set offs \<and> - lowest \<notin> set offs
              \<and> (\<forall>d \<in> set offs. d \<noteq> lowest \<longrightarrow> - d \<in> set offs)))"
proof -
  let ?c = "hatch_count (hatch_size r_outer) spacing"
  let ?offs = "hatch_offsets r_outer spacing"
  let ?lowest = "real_of_int ((- ?c) div 2) * spacing"
  have nz: "spacing \<noteq> 0" using assms by simp
  have list: "?offs = map (\<lambda>i. real_of_int i * spacing) [(- ?c) div 2 .. ?c div 2]"
    by (simp add: hatch_offsets_def hatch_range_def)
  have len: "length ?offs = nat (?c + 1)"
    by (simp add: hatch_offsets_def hatch_range_length)
  have cnt: "0 \<le> r_outer \<longrightarrow> ?c = \<lfloor>fl (fl (r_outer * fl (22 / 10)) / spacing)\<rfloor> + 3"
    using hatch_count_floor [OF assms] by blast
  have ev: "even ?c \<longrightarrow> (\<forall>d \<in> set ?offs. - d \<in> set ?offs)"
  proof (intro impI ballI)
    fix d assume e: "even ?c" and d: "d \<in> set ?offs"
    then obtain i where i: "i \<in> set (hatch_range ?c)" and di: "d = real_of_int i * spacing"
      unfolding hatch_offsets_def by auto
    from hatch_range_even_symmetric [OF e i] show "- d \<in> set ?offs"
      unfolding di hatch_offsets_neg_mem [OF nz] .
  qed
  have od: "odd ?c \<and> 0 < ?c \<longrightarrow>
              ?lowest \<in> set ?offs \<and> - ?lowest \<notin> set ?offs
            \<and> (\<forall>d \<in> set ?offs. d \<noteq> ?lowest \<longrightarrow> - d \<in> set ?offs)"
  proof (intro impI conjI ballI)
    assume o: "odd ?c \<and> 0 < ?c"
    then have oc: "odd ?c" and pc: "0 < ?c" by simp_all
    show "?lowest \<in> set ?offs"
      unfolding hatch_offsets_mem [OF nz] by (rule hatch_range_odd_lowest(1) [OF oc pc])
    show "- ?lowest \<notin> set ?offs"
      unfolding hatch_offsets_neg_mem [OF nz] by (rule hatch_range_odd_lowest(2) [OF oc pc])
    fix d assume d: "d \<in> set ?offs" and ne: "d \<noteq> ?lowest"
    then obtain i where i: "i \<in> set (hatch_range ?c)" and di: "d = real_of_int i * spacing"
      unfolding hatch_offsets_def by auto
    from ne di have "i \<noteq> (- ?c) div 2" by auto
    from hatch_range_odd_others [OF oc i this] show "- d \<in> set ?offs"
      unfolding di hatch_offsets_neg_mem [OF nz] .
  qed
  show ?thesis
    unfolding Let_def using add_set_offsets [OF nz] list len cnt ev od by blast
qed

text \<open>
  At outer radius 10 and spacing 1 the count is 25 and the offsets run from -13 to 12.
  At outer radius 15 and spacing 1.1 (the double) the count is 32, as in the code, and
  the 33 offsets run from -16 to 16 times the spacing.
\<close>

theorem crosshatch_offsets_witness:
  "(0 :: real) < 1 \<and> (0 :: real) \<le> 10
   \<and> odd (hatch_count (hatch_size 10) 1) \<and> 0 < hatch_count (hatch_size 10) 1
   \<and> hatch_count (hatch_size 10) 1 = 25
   \<and> hatch_offsets 10 1 = map (\<lambda>i. real_of_int i * 1) [- 13 .. 12]
   \<and> length (hatch_offsets 10 1) = 26
   \<and> 0 < fl (11 / 10) \<and> even (hatch_count (hatch_size 15) (fl (11 / 10)))
   \<and> hatch_count (hatch_size 15) (fl (11 / 10)) = 32
   \<and> hatch_offsets 15 (fl (11 / 10)) = map (\<lambda>i. real_of_int i * fl (11 / 10)) [- 16 .. 16]
   \<and> length (hatch_offsets 15 (fl (11 / 10))) = 33"
proof -
  note odd_inst = crosshatch_offsets [of 1 50 50 10 "ray_style (1 / 10) ''#000000'' (1 / 2)" 35]
  note even_inst = crosshatch_offsets [of "fl (11 / 10)" 50 50 15
      "ray_style (1 / 10) ''#000000'' (1 / 2)" 35]
  have c: "hatch_count (hatch_size 10) 1 = 25" by (rule hatch_count_10_1)
  have c': "hatch_count (hatch_size 15) (fl (11 / 10)) = 32" by (rule hatch_count_15_1_1)
  have pos: "(0 :: real) < 1" by simp
  have pos': "0 < fl (11 / 10)" by (simp add: fl_1_1)
  from odd_inst [OF pos] have "hatch_offsets 10 1 = map (\<lambda>i. real_of_int i * 1) [- 13 .. 12]"
    and "length (hatch_offsets 10 1) = 26"
    unfolding Let_def c by simp_all
  moreover from even_inst [OF pos']
  have "hatch_offsets 15 (fl (11 / 10)) = map (\<lambda>i. real_of_int i * fl (11 / 10)) [- 16 .. 16]"
    and "length (hatch_offsets 15 (fl (11 / 10))) = 33"
    unfolding Let_def c' by simp_all
  ultimately show ?thesis using c c' pos' by simp
qed

text \<open>
  Against C5 as stated: at outer radius 10 and spacing 1 the offset -13 is drawn and
  the offset 13 is not.
\<close>

theorem crosshatch_offsets_asymmetric_counterexample:
  "- 13 \<in> set (hatch_offsets 10 1) \<and> 13 \<notin> set (hatch_offsets 10 1)"
  using hatch_offsets_mem [of 1 "- 13" 10] hatch_offsets_mem [of 1 13 10]
  by (simp add: hatch_range_set hatch_count_10_1)

section \<open>Per-layer variation\<close>

lemma vary_guilloche_points:
  assumes "vary_guilloche R opts svg i ovr st = Inr (ovr', st')" and "ov_points ovr = None"
  shows "ov_points ovr' =
         Some (max 800 (py_int
           (fl (fl (real_of_int (opt_points opts)) * fl (1 + fl (fl (1 / 10) * fl (real i)))))))"
  using assms unfolding vary_guilloche_def Let_def
  by (auto split: if_splits sum.splits prod.splits)

lemma points_truncation_floor: "max 800 (py_int y) = max 800 \<lfloor>y\<rfloor>"
proof (cases "0 \<le> y")
  case True
  then show ?thesis by (simp add: py_int_def)
next
  case False
  then have "\<lceil>y\<rceil> \<le> 0" and "\<lfloor>y\<rfloor> \<le> 0"
    by (simp_all add: ceiling_le_iff floor_le_iff)
  then show ?thesis using False by (simp add: py_int_def)
qed

lemma resolve_layer_fields:
  assumes "resolve_layer R opts svg base_stroke base_opacity plan i st = Inr ls"
  shows "plan \<noteq> []"
    and "ls_ptype ls = fst (plan ! (i mod length plan))"
    and "ls_stroke ls = layer_stroke opts base_stroke i"
    and "ls_opacity ls = layer_opacity opts base_opacity i"
  using assms unfolding resolve_layer_def Let_def
  by (auto split: if_splits sum.splits prod.splits)

text \<open>
  Claim C4, as the code has it. In the layer loop, for a layer \<open>i\<close> of type guilloche
  whose plan entry returns overrides without a point count, the resolved point count
  is \<open>max 800 (int(p0 * (1.0 + 0.10 * i)))\<close> with \<open>p0\<close> the option \<^verbatim>\<open>points\<close>: the product
  is the rounded double and \<^verbatim>\<open>int\<close> truncates it, it does not round to the nearest
  integer. Under the maximum with 800, truncation toward zero gives the same value as
  rounding the double down.
\<close>

theorem layer_points_resolved:
  assumes "resolve_layer R opts svg base_stroke base_opacity plan i st = Inr ls"
    and "ls_ptype ls = ''guilloche''"
    and "snd (plan ! (i mod length plan)) i st = Inr (ovr0, st0)"
    and "ov_points ovr0 = None"
  shows "ov_points (ls_overrides ls) =
           Some (max 800 (py_int
             (fl (fl (real_of_int (opt_points opts)) * fl (1 + fl (fl (1 / 10) * fl (real i)))))))
       \<and> ov_points (ls_overrides ls) =
           Some (max 800
             \<lfloor>fl (fl (real_of_int (opt_points opts)) * fl (1 + fl (fl (1 / 10) * fl (real i))))\<rfloor>)"
proof -
  have kind: "fst (plan ! (i mod length plan)) = ''guilloche''"
    using resolve_layer_fields(2) [OF assms(1)] assms(2) by simp
  obtain ptype ofn where entry: "plan ! (i mod length plan) = (ptype, ofn)"
    by (cases "plan ! (i mod length plan)")
  with kind assms(3) have pt: "ptype = ''guilloche''" and call: "ofn i st = Inr (ovr0, st0)"
    by simp_all
  from assms(1) obtain ovr1 st1 where
    vary: "vary_guilloche R opts svg i ovr0 st0 = Inr (ovr1, st1)"
    and ovr: "ls_overrides ls = ovr1"
    unfolding resolve_layer_def Let_def entry pt
    by (auto simp: call split: if_splits sum.splits prod.splits)
  from vary_guilloche_points [OF vary assms(4)] ovr
  have "ov_points (ls_overrides ls) =
           Some (max 800 (py_int
             (fl (fl (real_of_int (opt_points opts)) * fl (1 + fl (fl (1 / 10) * fl (real i)))))))"
    by simp
  then show ?thesis by (simp only: points_truncation_floor simp_thms)
qed

lemma default_plan:
  "resolve_plan lcg (default_options\<lparr>opt_auto_complex := True\<rparr>) mm_doc =
   (replicate 4 (''guilloche'', \<lambda>i st. Inr (no_overrides, st)), 4)"
  by (simp add: resolve_plan_def default_options_def py_lower_def py_strip_def is_space_def
      lower_char_def)

lemma default_layer_resolves:
  "i < 4 \<Longrightarrow>
   \<exists>ls. resolve_layer lcg (default_options\<lparr>opt_auto_complex := True\<rparr>) mm_doc (1 / 10) 0.35
          (fst (resolve_plan lcg (default_options\<lparr>opt_auto_complex := True\<rparr>) mm_doc)) i 1 = Inr ls"
  unfolding default_plan
  by (simp add: resolve_layer_def default_options_def vary_guilloche_def randint_def
      uniform_def lcg_def lcg_next_def dict_get_def no_overrides_def mm_to_uu_def mm_doc_def
      layer_stroke_def layer_opacity_def Let_def)

lemma five_layer_plan:
  "resolve_plan lcg (default_options\<lparr>opt_auto_complex := True, opt_points := 1300,
                                      opt_layers := 5\<rparr>) mm_doc =
   (replicate 5 (''guilloche'', \<lambda>i st. Inr (no_overrides, st)), 5)"
  by (simp add: resolve_plan_def default_options_def py_lower_def py_strip_def is_space_def
      lower_char_def)

lemma five_layer_resolves:
  "\<exists>ls. resolve_layer lcg (default_options\<lparr>opt_auto_complex := True, opt_points := 1300,
                                          opt_layers := 5\<rparr>) mm_doc (1 / 10) 0.35
          (replicate 5 (''guilloche'', \<lambda>i st. Inr (no_overrides, st))) 4 1 = Inr ls"
  by (simp add: resolve_layer_def default_options_def vary_guilloche_def randint_def
      uniform_def lcg_def lcg_next_def dict_get_def no_overrides_def mm_to_uu_def mm_doc_def
      layer_stroke_def layer_opacity_def Let_def)

text \<open>
  Layer 4 of the default preset with five layers and 1300 base points, drawn with the
  generator \<open>lcg\<close> in state 1: the double product is \<open>1819.9999999999998\<close> and the layer
  gets 1819 points, as in the code (the exact product is 1820).
\<close>

theorem layer_points_resolved_witness:
  "\<exists>ls. resolve_layer lcg (default_options\<lparr>opt_auto_complex := True, opt_points := 1300,
                                          opt_layers := 5\<rparr>) mm_doc (1 / 10) 0.35
          (fst (resolve_plan lcg (default_options\<lparr>opt_auto_complex := True, opt_points := 1300,
                                                   opt_layers := 5\<rparr>) mm_doc)) 4 1 = Inr ls
      \<and> ls_ptype ls = ''guilloche''
      \<and> ov_points (ls_overrides ls) = Some 1819"
proof -
  let ?opts = "default_options\<lparr>opt_auto_complex := True, opt_points := 1300, opt_layers := 5\<rparr>"
  let ?plan = "fst (resolve_plan lcg ?opts mm_doc)"
  obtain ls where ls: "resolve_layer lcg ?opts mm_doc (1 / 10) 0.35 ?plan 4 1 = Inr ls"
    using five_layer_resolves by (auto simp: five_layer_plan)
  have kind: "ls_ptype ls = ''guilloche''"
    using resolve_layer_fields(2) [OF ls] by (simp add: five_layer_plan)
  have entry: "snd (?plan ! (4 mod length ?plan)) 4 1 = Inr (no_overrides, 1)"
    by (simp add: five_layer_plan)
  have free: "ov_points no_overrides = None" by (simp add: no_overrides_def)
  have p0: "opt_points ?opts = 1300" by simp
  from layer_points_resolved [OF ls kind entry free]
  have "ov_points (ls_overrides ls) =
          Some (max 800 (py_int
            (fl (fl (real_of_int 1300) * fl (1 + fl (fl (1 / 10) * fl (real 4)))))))"
    unfolding p0 by (rule conjunct1)
  then have "ov_points (ls_overrides ls) = Some 1819"
    unfolding points_product_1300_4 by (simp add: py_int_def)
  with ls kind show ?thesis by blast
qed

text \<open>
  Against C4 as stated: with 1208 base points, layer 1 has the product
  \<open>1328.8000000000002\<close>, which the code truncates to 1328, while rounding to the nearest
  integer gives 1329.
\<close>

theorem layer_points_not_rounded_counterexample:
  "map_sum id (ov_points \<circ> fst)
     (vary_guilloche lcg (default_options\<lparr>opt_points := 1208\<rparr>) mm_doc 1 no_overrides 1) =
   Inr (Some 1328)
   \<and> max 800 (round (real_of_int 1208 * (1 + 0.10 * real 1))) = (1329 :: int)"
proof
  let ?opts = "default_options\<lparr>opt_points := 1208\<rparr>"
  obtain ovr' st' where
    run: "vary_guilloche lcg ?opts mm_doc 1 no_overrides 1 = Inr (ovr', st')"
    by (simp add: default_options_def vary_guilloche_def randint_def lcg_def lcg_next_def
        dict_get_def no_overrides_def mm_to_uu_def mm_doc_def Let_def)
  have free: "ov_points no_overrides = None" by (simp add: no_overrides_def)
  have p0: "opt_points ?opts = 1208" by simp
  have "ov_points ovr' =
          Some (max 800 (py_int
            (fl (fl (real_of_int 1208) * fl (1 + fl (fl (1 / 10) * fl (real 1)))))))"
    using vary_guilloche_points [OF run free] unfolding p0 .
  then have "ov_points ovr' = Some 1328"
    unfolding points_product_1208_1 by (simp add: py_int_def)
  then show "map_sum id (ov_points \<circ> fst) (vary_guilloche lcg ?opts mm_doc 1 no_overrides 1) =
             Inr (Some 1328)"
    unfolding run by simp
  show "max 800 (round (real_of_int 1208 * (1 + 0.10 * real 1))) = (1329 :: int)"
    by (simp add: round_def)
qed

lemma layer_stroke_decreases:
  assumes "0 \<le> base_stroke" and "0 < opt_stroke_decay opts" and "opt_stroke_decay opts < 1"
  shows "layer_stroke opts base_stroke (Suc i) \<le> layer_stroke opts base_stroke i"
proof -
  have "opt_stroke_decay opts ^ Suc i \<le> opt_stroke_decay opts ^ i"
    using assms(2,3) by (intro power_decreasing) simp_all
  then show ?thesis unfolding layer_stroke_def using assms(1) by (rule mult_left_mono)
qed

lemma layer_opacity_decreases:
  assumes "0 < opt_opacity_decay opts" and "opt_opacity_decay opts < 1"
  shows "layer_opacity opts base_opacity (Suc i) \<le> layer_opacity opts base_opacity i"
proof (cases "0 \<le> base_opacity")
  case True
  have "opt_opacity_decay opts ^ Suc i \<le> opt_opacity_decay opts ^ i"
    using assms by (intro power_decreasing) simp_all
  then have "base_opacity * opt_opacity_decay opts ^ Suc i \<le> base_opacity * opt_opacity_decay opts ^ i"
    using True by (rule mult_left_mono)
  then show ?thesis unfolding layer_opacity_def Let_def by linarith
next
  case False
  have "0 \<le> opt_opacity_decay opts ^ n" for n using assms(1) by simp
  then have "base_opacity * opt_opacity_decay opts ^ n \<le> 0" for n
    using False by (simp add: mult_nonpos_nonneg)
  from this [of i] this [of "Suc i"] show ?thesis
    unfolding layer_opacity_def Let_def by (simp add: max_def min_def)
qed

lemma layer_opacity_range:
  "0.02 \<le> layer_opacity opts base_opacity i \<and> layer_opacity opts base_opacity i \<le> 1.0"
  unfolding layer_opacity_def Let_def by simp

text \<open>
  Claim C6, as the code has it. In the layer loop the stroke width of layer \<open>i\<close> is
  \<open>base_stroke * stroke_decay ^ i\<close> and its opacity is \<open>base_opacity * opacity_decay ^ i\<close>
  clamped to \<open>[0.02, 1.0]\<close>. For decay factors in \<open>(0, 1)\<close> the opacity does not
  increase from a layer to the next and stays in \<open>[0.02, 1.0]\<close>; the stroke width does
  not increase either when the base stroke width is not negative.
\<close>

theorem layer_decay_monotone:
  assumes "0 < opt_stroke_decay opts" and "opt_stroke_decay opts < 1"
    and "0 < opt_opacity_decay opts" and "opt_opacity_decay opts < 1"
    and "0 \<le> base_stroke"
    and "resolve_layer R opts svg base_stroke base_opacity plan i st = Inr ls"
    and "resolve_layer R opts svg base_stroke base_opacity plan (Suc i) st' = Inr ls'"
  shows "ls_stroke ls = base_stroke * opt_stroke_decay opts ^ i
       \<and> ls_opacity ls = max 0.02 (min 1.0 (base_opacity * opt_opacity_decay opts ^ i))
       \<and> ls_stroke ls' \<le> ls_stroke ls
       \<and> ls_opacity ls' \<le> ls_opacity ls
       \<and> 0.02 \<le> ls_opacity ls \<and> ls_opacity ls \<le> 1.0"
proof -
  have s: "ls_stroke ls = layer_stroke opts base_stroke i"
    and s': "ls_stroke ls' = layer_stroke opts base_stroke (Suc i)"
    and o: "ls_opacity ls = layer_opacity opts base_opacity i"
    and o': "ls_opacity ls' = layer_opacity opts base_opacity (Suc i)"
    using resolve_layer_fields [OF assms(6)] resolve_layer_fields [OF assms(7)] by simp_all
  have "ls_stroke ls = base_stroke * opt_stroke_decay opts ^ i"
    unfolding s layer_stroke_def ..
  moreover have "ls_opacity ls = max 0.02 (min 1.0 (base_opacity * opt_opacity_decay opts ^ i))"
    unfolding o layer_opacity_def Let_def ..
  moreover have "ls_stroke ls' \<le> ls_stroke ls"
    unfolding s s' using assms(5,1,2) by (rule layer_stroke_decreases)
  moreover have "ls_opacity ls' \<le> ls_opacity ls"
    unfolding o o' using assms(3,4) by (rule layer_opacity_decreases)
  moreover have "0.02 \<le> ls_opacity ls \<and> ls_opacity ls \<le> 1.0"
    unfolding o by (rule layer_opacity_range)
  ultimately show ?thesis by blast
qed

text \<open>Layers 0 and 1 of the default preset with the default decay factors 0.85 and 0.75.\<close>

theorem layer_decay_monotone_witness:
  "\<exists>ls ls'.
     resolve_layer lcg (default_options\<lparr>opt_auto_complex := True\<rparr>) mm_doc (1 / 10) 0.35
       (fst (resolve_plan lcg (default_options\<lparr>opt_auto_complex := True\<rparr>) mm_doc)) 0 1 = Inr ls
   \<and> resolve_layer lcg (default_options\<lparr>opt_auto_complex := True\<rparr>) mm_doc (1 / 10) 0.35
       (fst (resolve_plan lcg (default_options\<lparr>opt_auto_complex := True\<rparr>) mm_doc)) (Suc 0) 1 = Inr ls'
   \<and> ls_stroke ls' \<le> ls_stroke ls \<and> ls_opacity ls' \<le> ls_opacity ls
   \<and> 0.02 \<le> ls_opacity ls \<and> ls_opacity ls \<le> 1.0"
proof -
  let ?opts = "default_options\<lparr>opt_auto_complex := True\<rparr>"
  let ?plan = "fst (resolve_plan lcg ?opts mm_doc)"
  obtain ls where ls: "resolve_layer lcg ?opts mm_doc (1 / 10) 0.35 ?plan 0 1 = Inr ls"
    using default_layer_resolves [of 0] by auto
  obtain ls' where ls': "resolve_layer lcg ?opts mm_doc (1 / 10) 0.35 ?plan (Suc 0) 1 = Inr ls'"
    using default_layer_resolves [of "Suc 0"] by auto
  have d: "0 < opt_stroke_decay ?opts" "opt_stroke_decay ?opts < 1"
    "0 < opt_opacity_decay ?opts" "opt_opacity_decay ?opts < 1"
    by (simp_all add: default_options_def)
  have b: "(0 :: real) \<le> 1 / 10" by simp
  from layer_decay_monotone [OF d b ls ls'] ls ls' show ?thesis by blast
qed

text \<open>
  Against C6 as stated: with the base stroke width -1 and the default decay 0.85, layer
  1 has the stroke width -0.85, above the -1 of layer 0.
\<close>

theorem stroke_decay_negative_base_counterexample:
  "layer_stroke default_options (- 1) 0 = - 1
   \<and> layer_stroke default_options (- 1) 1 = - 0.85
   \<and> \<not> layer_stroke default_options (- 1) 1 \<le> layer_stroke default_options (- 1) 0"
  by (simp add: layer_stroke_def default_options_def)

section \<open>The layer loop\<close>

lemma layers_loop_step:
  fixes R :: "'g prng"
  assumes run: "layers_loop R opts svg cx cy r_outer r_inner base_stroke base_opacity stroke_color
                  plan (i # rest) st g = Some (Inr g')"
  shows "\<exists>(ls :: 'g layer_spec) shapes.
           resolve_layer R opts svg base_stroke base_opacity plan i st = Inr ls
         \<and> draw_one opts svg cx cy r_outer r_inner (ls_ptype ls) (ls_stroke ls) stroke_color
              (ls_opacity ls) (ls_overrides ls) = Some (Inr shapes)
         \<and> layers_loop R opts svg cx cy r_outer r_inner base_stroke base_opacity stroke_color
              plan rest (ls_rnd ls) (g @ [make_layer cx cy i (ls_rotation ls) shapes]) =
            Some (Inr g')"
proof (cases "resolve_layer R opts svg base_stroke base_opacity plan i st")
  case (Inl e)
  with run show ?thesis by simp
next
  case (Inr ls)
  show ?thesis
  proof (cases "draw_one opts svg cx cy r_outer r_inner (ls_ptype ls) (ls_stroke ls) stroke_color
              (ls_opacity ls) (ls_overrides ls)")
    case None
    with run Inr show ?thesis by simp
  next
    case (Some res)
    show ?thesis
    proof (cases res)
      case (Inl e)
      with run \<open>resolve_layer R opts svg base_stroke base_opacity plan i st = Inr ls\<close> Some
      show ?thesis by simp
    next
      case shapes: (Inr shapes)
      with run \<open>resolve_layer R opts svg base_stroke base_opacity plan i st = Inr ls\<close> Some
      show ?thesis by simp
    qed
  qed
qed


lemma layers_loop_layers:
  fixes R :: "'g prng"
  shows "layers_loop R opts svg cx cy r_outer r_inner base_stroke base_opacity stroke_color plan idxs st g =
     Some (Inr g') \<Longrightarrow>
   \<exists>new. g' = g @ new \<and> length new = length idxs
     \<and> (\<forall>k < length idxs. \<exists>(ls :: 'g layer_spec) shapes.
           new ! k = make_layer cx cy (idxs ! k) (ls_rotation ls) shapes
         \<and> ls_ptype ls = fst (plan ! ((idxs ! k) mod length plan))
         \<and> draw_one opts svg cx cy r_outer r_inner (ls_ptype ls) (ls_stroke ls) stroke_color
              (ls_opacity ls) (ls_overrides ls) = Some (Inr shapes))"
proof (induction idxs arbitrary: st g)
  case Nil
  then show ?case by simp
next
  case (Cons i rest)
  from layers_loop_step [OF Cons.prems] obtain ls shapes where
    ls: "resolve_layer R opts svg base_stroke base_opacity plan i st = Inr ls"
    and shapes: "draw_one opts svg cx cy r_outer r_inner (ls_ptype ls) (ls_stroke ls) stroke_color
               (ls_opacity ls) (ls_overrides ls) = Some (Inr shapes)"
    and rest: "layers_loop R opts svg cx cy r_outer r_inner base_stroke base_opacity stroke_color
       plan rest (ls_rnd ls) (g @ [make_layer cx cy i (ls_rotation ls) shapes]) = Some (Inr g')"
    by blast
  let ?L = "make_layer cx cy i (ls_rotation ls) shapes"
  from Cons.IH [OF rest] obtain new where
    all: "g' = (g @ [?L]) @ new \<and> length new = length rest
      \<and> (\<forall>k < length rest. \<exists>(ls :: 'g layer_spec) shapes.
           new ! k = make_layer cx cy (rest ! k) (ls_rotation ls) shapes
         \<and> ls_ptype ls = fst (plan ! ((rest ! k) mod length plan))
         \<and> draw_one opts svg cx cy r_outer r_inner (ls_ptype ls) (ls_stroke ls) stroke_color
              (ls_opacity ls) (ls_overrides ls) = Some (Inr shapes))"
    by blast
  note g' = all [THEN conjunct1]
  note len = all [THEN conjunct2, THEN conjunct1]
  note each = all [THEN conjunct2, THEN conjunct2, rule_format]
  have kind: "ls_ptype ls = fst (plan ! (i mod length plan))"
    using resolve_layer_fields(2) [OF ls] .
  have every: "\<forall>k < length (i # rest). \<exists>(ls :: 'g layer_spec) shapes.
           (?L # new) ! k = make_layer cx cy ((i # rest) ! k) (ls_rotation ls) shapes
         \<and> ls_ptype ls = fst (plan ! (((i # rest) ! k) mod length plan))
         \<and> draw_one opts svg cx cy r_outer r_inner (ls_ptype ls) (ls_stroke ls) stroke_color
              (ls_opacity ls) (ls_overrides ls) = Some (Inr shapes)"
  proof (intro allI impI)
    fix k assume k: "k < length (i # rest)"
    show "\<exists>(ls :: 'g layer_spec) shapes.
           (?L # new) ! k = make_layer cx cy ((i # rest) ! k) (ls_rotation ls) shapes
         \<and> ls_ptype ls = fst (plan ! (((i # rest) ! k) mod length plan))
         \<and> draw_one opts svg cx cy r_outer r_inner (ls_ptype ls) (ls_stroke ls) stroke_color
              (ls_opacity ls) (ls_overrides ls) = Some (Inr shapes)"
    proof (cases k)
      case 0
      show ?thesis unfolding 0 nth_Cons_0
        by (intro exI [of _ ls] exI [of _ shapes] conjI refl kind shapes)
    next
      case (Suc j)
      with k have "j < length rest" by simp
      from each [OF this] show ?thesis unfolding Suc nth_Cons_Suc .
    qed
  qed
  have app: "g' = g @ (?L # new)" unfolding g' by simp
  have len': "length (?L # new) = length (i # rest)" using len by simp
  show ?case
    by (rule exI [of _ "?L # new"]) (intro conjI app len' every)
qed


section \<open>Layer plans\<close>

lemma breguet_resolved:
  "resolve_plan R (opts\<lparr>opt_complex_preset := ''breguet'', opt_layers := 1\<rparr>) svg =
   (breguet_plan R (opts\<lparr>opt_complex_preset := ''breguet'', opt_layers := 1\<rparr>) svg, 4)"
  by (simp add: resolve_plan_def py_lower_def py_strip_def is_space_def lower_char_def)

lemma breguet_kinds:
  "map (\<lambda>i. fst (breguet_plan R opts svg ! (i mod 4))) [0..<4] =
   [''concentric'', ''guilloche'', ''sunburst'', ''guilloche'']"
proof -
  have "[0..<4] = [0, 1, 2, 3 :: nat]" by code_simp
  then show ?thesis by (simp add: breguet_plan_def)
qed

lemma draw_one_returns:
  assumes "ptype \<noteq> ''crosshatch''"
    and "ptype = ''concentric'' \<longrightarrow>
           0 < dict_get (ov_ring_spacing ovr) (mm_to_uu svg (opt_ring_spacing_mm opts))"
  shows "\<exists>shapes. draw_one opts svg cx cy r_outer r_inner ptype stroke_w stroke_color opacity ovr =
                   Some (Inr shapes)"
proof (cases "ptype = ''concentric''")
  case True
  with assms(2) have "0 < dict_get (ov_ring_spacing ovr) (mm_to_uu svg (opt_ring_spacing_mm opts))"
    by simp
  from pattern_concentric_radii_nonneg [OF this, of cx cy r_outer r_inner stroke_w stroke_color opacity]
  show ?thesis using True by (auto simp: draw_one_def Let_def)
next
  case False
  with assms(1) show ?thesis by (simp add: draw_one_def Let_def)
qed

lemma breguet_layer_resolves:
  fixes R :: "'g prng"
  shows "\<exists>ls :: 'g layer_spec.
           resolve_layer R opts svg base_stroke base_opacity (breguet_plan R opts svg) i st = Inr ls
         \<and> ls_ptype ls \<noteq> ''crosshatch''
         \<and> (ls_ptype ls = ''concentric'' \<longrightarrow>
              ov_ring_spacing (ls_overrides ls) = Some (mm_to_uu svg 0.45))"
proof -
  have "i mod 4 = 0 \<or> i mod 4 = 1 \<or> i mod 4 = 2 \<or> i mod 4 = 3" by presburger
  then show ?thesis
  proof (elim disjE)
    assume "i mod 4 = 0"
    then show ?thesis
      by (simp add: resolve_layer_def breguet_plan_def Let_def split: prod.splits)
  next
    assume "i mod 4 = 1"
    then show ?thesis
      by (simp add: resolve_layer_def breguet_plan_def rosette_ofn_def randint_def
          vary_guilloche_def dict_get_def no_overrides_def Let_def split: prod.splits)
  next
    assume "i mod 4 = 2"
    then show ?thesis
      by (simp add: resolve_layer_def breguet_plan_def Let_def split: prod.splits)
  next
    assume "i mod 4 = 3"
    then show ?thesis
      by (simp add: resolve_layer_def breguet_plan_def rosette_ofn_def randint_def
          vary_guilloche_def dict_get_def no_overrides_def Let_def split: prod.splits)
  qed
qed


lemma breguet_loop_returns:
  fixes R :: "'g prng"
  assumes pos: "0 < mm_to_uu svg 0.45"
  shows "\<exists>g'. layers_loop R opts svg cx cy r_outer r_inner base_stroke base_opacity stroke_color
                 (breguet_plan R opts svg) idxs st g = Some (Inr g')"
proof (induction idxs arbitrary: st g)
  case Nil
  show ?case by simp
next
  case (Cons i rest)
  from breguet_layer_resolves [of R opts svg base_stroke base_opacity i st]
  obtain ls :: "'g layer_spec" where
    ls: "resolve_layer R opts svg base_stroke base_opacity (breguet_plan R opts svg) i st = Inr ls"
    and nc: "ls_ptype ls \<noteq> ''crosshatch''"
    and sp: "ls_ptype ls = ''concentric'' \<longrightarrow>
              ov_ring_spacing (ls_overrides ls) = Some (mm_to_uu svg 0.45)"
    by blast
  have "ls_ptype ls = ''concentric'' \<longrightarrow>
          0 < dict_get (ov_ring_spacing (ls_overrides ls)) (mm_to_uu svg (opt_ring_spacing_mm opts))"
    using sp pos by (simp add: dict_get_def)
  from draw_one_returns [OF nc this] obtain shapes where
    shapes: "draw_one opts svg cx cy r_outer r_inner (ls_ptype ls) (ls_stroke ls) stroke_color
               (ls_opacity ls) (ls_overrides ls) = Some (Inr shapes)"
    by blast
  from Cons.IH [of "ls_rnd ls" "g @ [make_layer cx cy i (ls_rotation ls) shapes]"]
  show ?case by (simp add: ls shapes)
qed

lemma upt_0_4: "[0..<4] = [0, 1, 2, 3 :: nat]"
  by code_simp

text \<open>
  The preset \<^verbatim>\<open>breguet\<close> with 1 requested layer, run through \<^verbatim>\<open>effect\<close>: if the host
  converts 0.45 mm to a positive length (the ring spacing of the first layer), the run
  returns a tree with four layer groups, and layer \<open>k\<close> holds what \<^verbatim>\<open>_draw_one\<close> drew
  for the \<open>k\<close>-th of the types concentric, guilloche, sunburst, guilloche.
\<close>

lemma effect_breguet:
  fixes R :: "'g prng"
  assumes pos: "0 < mm_to_uu svg 0.45"
  shows "\<exists>t. effect R (opts\<lparr>opt_auto_complex := True, opt_complex_preset := ''breguet'',
                            opt_layers := 1\<rparr>) svg uuid_hex = Some (Inr t)
           \<and> length (dt_pattern t) = 4
           \<and> (\<forall>k < 4. \<exists>(ls :: 'g layer_spec) shapes cx cy r_outer r_inner.
                 dt_pattern t ! k = make_layer cx cy k (ls_rotation ls) shapes
               \<and> ls_ptype ls = [''concentric'', ''guilloche'', ''sunburst'', ''guilloche''] ! k
               \<and> draw_one (opts\<lparr>opt_auto_complex := True, opt_complex_preset := ''breguet'',
                                 opt_layers := 1\<rparr>) svg cx cy r_outer r_inner
                    (ls_ptype ls) (ls_stroke ls) (opt_stroke_color opts) (ls_opacity ls)
                    (ls_overrides ls) = Some (Inr shapes))"
proof -
  let ?o = "opts\<lparr>opt_auto_complex := True, opt_complex_preset := ''breguet'', opt_layers := 1\<rparr>"
  let ?cx = "fst (get_doc_center svg)" and ?cy = "snd (get_doc_center svg)"
  let ?ro = "mm_to_uu svg ((opt_dial_diameter_mm ?o -
                    (if opt_outline_compensate_stroke ?o then opt_outline_stroke_mm ?o else 0)) / 2)"
  let ?ri = "mm_to_uu svg (max 0 (opt_inner_radius_mm ?o))"
  let ?bs = "mm_to_uu svg (opt_stroke_mm ?o)"
  let ?plan = "breguet_plan R ?o svg"
  have plan: "resolve_plan R ?o svg = (?plan, 4)"
    using breguet_resolved [of R "opts\<lparr>opt_auto_complex := True\<rparr>" svg] by simp
  from breguet_loop_returns [OF pos, of R ?o ?cx ?cy ?ro ?ri ?bs "opt_stroke_opacity ?o"
      "opt_stroke_color ?o" "[0..<4]" "prng_seed R (opt_seed ?o)" "[]"]
  obtain g' where loop: "layers_loop R ?o svg ?cx ?cy ?ro ?ri ?bs (opt_stroke_opacity ?o)
      (opt_stroke_color ?o) ?plan [0..<4] (prng_seed R (opt_seed ?o)) [] = Some (Inr g')"
    by blast
  from layers_loop_layers [OF loop] obtain new where
    new: "g' = [] @ new" and len: "length new = length [0..<4::nat]"
    and each: "\<forall>k < length [0..<4::nat]. \<exists>(ls :: 'g layer_spec) shapes.
           new ! k = make_layer ?cx ?cy ([0..<4] ! k) (ls_rotation ls) shapes
         \<and> ls_ptype ls = fst (?plan ! (([0..<4] ! k) mod length ?plan))
         \<and> draw_one ?o svg ?cx ?cy ?ro ?ri (ls_ptype ls) (ls_stroke ls) (opt_stroke_color ?o)
              (ls_opacity ls) (ls_overrides ls) = Some (Inr shapes)"
    by blast
  have four: "nat 4 = 4" by simp
  have eff: "\<exists>t. effect R ?o svg uuid_hex = Some (Inr t) \<and> dt_pattern t = g'"
    unfolding effect_def Let_def case_prod_beta plan fst_conv snd_conv four
    using loop by simp
  have kinds: "fst (?plan ! (k mod length ?plan)) =
               [''concentric'', ''guilloche'', ''sunburst'', ''guilloche''] ! k" if "k < 4" for k
  proof -
    from that have "k = 0 \<or> k = 1 \<or> k = 2 \<or> k = 3" by presburger
    then show ?thesis by (elim disjE) (simp_all add: breguet_plan_def)
  qed
  have layers: "\<exists>(ls :: 'g layer_spec) shapes cx cy r_outer r_inner.
                 g' ! k = make_layer cx cy k (ls_rotation ls) shapes
               \<and> ls_ptype ls = [''concentric'', ''guilloche'', ''sunburst'', ''guilloche''] ! k
               \<and> draw_one ?o svg cx cy r_outer r_inner
                    (ls_ptype ls) (ls_stroke ls) (opt_stroke_color opts) (ls_opacity ls)
                    (ls_overrides ls) = Some (Inr shapes)" if k: "k < 4" for k
  proof -
    from each k obtain ls :: "'g layer_spec" and shapes where
      a: "new ! k = make_layer ?cx ?cy ([0..<4] ! k) (ls_rotation ls) shapes"
      and b: "ls_ptype ls = fst (?plan ! (([0..<4] ! k) mod length ?plan))"
      and c: "draw_one ?o svg ?cx ?cy ?ro ?ri (ls_ptype ls) (ls_stroke ls) (opt_stroke_color ?o)
              (ls_opacity ls) (ls_overrides ls) = Some (Inr shapes)"
      by auto
    have idx: "[0..<4] ! k = k" using k by simp
    have "g' ! k = make_layer ?cx ?cy k (ls_rotation ls) shapes" using a new idx by simp
    moreover have "ls_ptype ls = [''concentric'', ''guilloche'', ''sunburst'', ''guilloche''] ! k"
      using b kinds [OF k] idx by simp
    moreover have "draw_one ?o svg ?cx ?cy ?ro ?ri (ls_ptype ls) (ls_stroke ls) (opt_stroke_color opts)
              (ls_opacity ls) (ls_overrides ls) = Some (Inr shapes)"
      using c by simp
    ultimately show ?thesis by blast
  qed
  from eff obtain t where t: "effect R ?o svg uuid_hex = Some (Inr t)" and p: "dt_pattern t = g'"
    by blast
  have "length (dt_pattern t) = 4" using p new len by simp
  with t p layers show ?thesis by auto
qed

text \<open>
  Claim C8. With the preset \<^verbatim>\<open>breguet\<close> and 1 requested layer the effective layer count
  is 4, and the layers 0 to 3 take the pattern types concentric, guilloche, sunburst,
  guilloche, in this order: the run of \<^verbatim>\<open>effect\<close> returns four layer groups drawn with
  these types (given a host that converts 0.45 mm to a positive length). In general the
  effective count is the requested count raised to the preset's minimum: 4 for
  \<^verbatim>\<open>breguet\<close> and \<^verbatim>\<open>modern\<close>, 1 for every other preset name.
\<close>

theorem preset_minimum_layers:
  fixes R :: "'g prng"
  shows
   "snd (resolve_plan R (opts\<lparr>opt_complex_preset := ''breguet'', opt_layers := 1\<rparr>) svg) = 4
    \<and> layer_kinds R (opts\<lparr>opt_complex_preset := ''breguet'', opt_layers := 1\<rparr>) svg =
        [''concentric'', ''guilloche'', ''sunburst'', ''guilloche'']
    \<and> (0 < mm_to_uu svg 0.45 \<longrightarrow>
        (\<exists>t. effect R (opts\<lparr>opt_auto_complex := True, opt_complex_preset := ''breguet'',
                              opt_layers := 1\<rparr>) svg uuid_hex = Some (Inr t)
           \<and> length (dt_pattern t) = 4
           \<and> (\<forall>k < 4. \<exists>(ls :: 'g layer_spec) shapes cx cy r_outer r_inner.
                 dt_pattern t ! k = make_layer cx cy k (ls_rotation ls) shapes
               \<and> ls_ptype ls = [''concentric'', ''guilloche'', ''sunburst'', ''guilloche''] ! k
               \<and> draw_one (opts\<lparr>opt_auto_complex := True, opt_complex_preset := ''breguet'',
                                 opt_layers := 1\<rparr>) svg cx cy r_outer r_inner
                    (ls_ptype ls) (ls_stroke ls) (opt_stroke_color opts) (ls_opacity ls)
                    (ls_overrides ls) = Some (Inr shapes))))
    \<and> (let preset = py_lower (py_strip (if opt_complex_preset opts = [] then ''rosette_stack''
                                         else opt_complex_preset opts));
            layers = snd (resolve_plan R opts svg)
        in (preset = ''breguet'' \<or> preset = ''modern'' \<longrightarrow> layers = max (opt_layers opts) 4)
         \<and> (preset \<noteq> ''breguet'' \<and> preset \<noteq> ''modern'' \<longrightarrow> layers = max (opt_layers opts) 1))"
proof (intro conjI)
  show "snd (resolve_plan R (opts\<lparr>opt_complex_preset := ''breguet'', opt_layers := 1\<rparr>) svg) = 4"
    by (simp add: breguet_resolved)
  have len: "length (breguet_plan R (opts\<lparr>opt_complex_preset := ''breguet'', opt_layers := 1\<rparr>) svg) = 4"
    by (simp add: breguet_plan_def)
  have four: "nat 4 = 4" by simp
  show "layer_kinds R (opts\<lparr>opt_complex_preset := ''breguet'', opt_layers := 1\<rparr>) svg =
       [''concentric'', ''guilloche'', ''sunburst'', ''guilloche'']"
    unfolding layer_kinds_def breguet_resolved prod.case Let_def len four
    by (rule breguet_kinds)
  show "0 < mm_to_uu svg 0.45 \<longrightarrow>
        (\<exists>t. effect R (opts\<lparr>opt_auto_complex := True, opt_complex_preset := ''breguet'',
                              opt_layers := 1\<rparr>) svg uuid_hex = Some (Inr t)
           \<and> length (dt_pattern t) = 4
           \<and> (\<forall>k < 4. \<exists>(ls :: 'g layer_spec) shapes cx cy r_outer r_inner.
                 dt_pattern t ! k = make_layer cx cy k (ls_rotation ls) shapes
               \<and> ls_ptype ls = [''concentric'', ''guilloche'', ''sunburst'', ''guilloche''] ! k
               \<and> draw_one (opts\<lparr>opt_auto_complex := True, opt_complex_preset := ''breguet'',
                                 opt_layers := 1\<rparr>) svg cx cy r_outer r_inner
                    (ls_ptype ls) (ls_stroke ls) (opt_stroke_color opts) (ls_opacity ls)
                    (ls_overrides ls) = Some (Inr shapes)))"
    by (rule impI) (rule effect_breguet)
  show "let preset = py_lower (py_strip (if opt_complex_preset opts = [] then ''rosette_stack''
                                        else opt_complex_preset opts));
           layers = snd (resolve_plan R opts svg)
       in (preset = ''breguet'' \<or> preset = ''modern'' \<longrightarrow> layers = max (opt_layers opts) 4)
        \<and> (preset \<noteq> ''breguet'' \<and> preset \<noteq> ''modern'' \<longrightarrow> layers = max (opt_layers opts) 1)"
    unfolding resolve_plan_def Let_def by auto
qed

text \<open>
  The preset \<^verbatim>\<open>breguet\<close> with 1 requested layer on the millimetre document; the preset
  \<^verbatim>\<open>modern\<close> with 2 requested layers, and the default preset with 0.
\<close>

theorem preset_minimum_layers_witness:
  "0 < mm_to_uu mm_doc 0.45
   \<and> (\<exists>t. effect lcg (default_options\<lparr>opt_auto_complex := True, opt_complex_preset := ''breguet'',
                                        opt_layers := 1\<rparr>) mm_doc
             ''0123456789abcdef0123456789abcdef'' = Some (Inr t)
         \<and> length (dt_pattern t) = 4)
   \<and> snd (resolve_plan lcg (default_options\<lparr>opt_complex_preset := ''modern'', opt_layers := 2\<rparr>) mm_doc) = 4
   \<and> snd (resolve_plan lcg (default_options\<lparr>opt_layers := 0\<rparr>) mm_doc) = 1"
proof -
  have norm: "py_lower (py_strip ''modern'') = ''modern''"
    "py_lower (py_strip ''rosette_stack'') = ''rosette_stack''"
    by (simp_all add: py_lower_def py_strip_def is_space_def lower_char_def)
  have pos: "0 < mm_to_uu mm_doc 0.45" by (simp add: mm_to_uu_def mm_doc_def)
  from preset_minimum_layers [of lcg default_options mm_doc "''0123456789abcdef0123456789abcdef''"] pos
  have "\<exists>t. effect lcg (default_options\<lparr>opt_auto_complex := True, opt_complex_preset := ''breguet'',
                                        opt_layers := 1\<rparr>) mm_doc
             ''0123456789abcdef0123456789abcdef'' = Some (Inr t)
         \<and> length (dt_pattern t) = 4"
    by blast
  moreover
  from preset_minimum_layers [of lcg "default_options\<lparr>opt_complex_preset := ''modern'', opt_layers := 2\<rparr>" mm_doc]
  have "snd (resolve_plan lcg (default_options\<lparr>opt_complex_preset := ''modern'', opt_layers := 2\<rparr>) mm_doc) = 4"
    unfolding Let_def by (simp add: norm default_options_def)
  moreover
  from preset_minimum_layers [of lcg "default_options\<lparr>opt_layers := 0\<rparr>" mm_doc]
  have "snd (resolve_plan lcg (default_options\<lparr>opt_layers := 0\<rparr>) mm_doc) = 1"
    unfolding Let_def by (simp add: norm default_options_def)
  ultimately show ?thesis using pos by blast
qed

section \<open>The effect\<close>

lemma effect_form:
  fixes R :: "'g prng"
  shows "\<exists>drawn gid circ outline. \<forall>u.
           effect R opts svg u =
             (case drawn of
                None \<Rightarrow> None
              | Some (Inl e) \<Rightarrow> Some (Inl e)
              | Some (Inr children) \<Rightarrow>
                  Some (Inr \<lparr>dt_label = gid, dt_id = gid, dt_pattern_id = gid @ ''-pattern'',
                             dt_clip = (if opt_clip_to_circle opts
                                        then Some (gid @ ''-clip-'' @ take 6 u, circ) else None),
                             dt_pattern = children, dt_outline = outline\<rparr>))"
proof -
  let ?cx = "fst (get_doc_center svg)" and ?cy = "snd (get_doc_center svg)"
  let ?r_outer = "mm_to_uu svg ((opt_dial_diameter_mm opts -
                    (if opt_outline_compensate_stroke opts then opt_outline_stroke_mm opts else 0)) / 2)"
  let ?r_inner = "mm_to_uu svg (max 0 (opt_inner_radius_mm opts))"
  let ?bs = "mm_to_uu svg (opt_stroke_mm opts)"
  let ?drawn = "if \<not> opt_auto_complex opts
                then draw_one opts svg ?cx ?cy ?r_outer ?r_inner (opt_pattern_type opts)
                       ?bs (opt_stroke_color opts) (opt_stroke_opacity opts) no_overrides
                else (let (plan, layers) = resolve_plan R opts svg
                      in layers_loop R opts svg ?cx ?cy ?r_outer ?r_inner ?bs (opt_stroke_opacity opts)
                           (opt_stroke_color opts) plan [0..<nat layers]
                           (prng_seed R (opt_seed opts)) [])"
  let ?gid = "if opt_group_name opts = [] then ''dial-pattern'' else opt_group_name opts"
  let ?outline = "if opt_draw_outline opts
                     then Some (Circle ?cx ?cy ?r_outer
                            \<lparr>st_fill = ''none'', st_stroke = ''#000000'',
                             st_stroke_width = mm_to_uu svg (opt_outline_stroke_mm opts),
                             st_stroke_opacity = None, st_stroke_linecap = None,
                             st_stroke_linejoin = None\<rparr>)
                     else None"
  have "effect R opts svg u =
             (case ?drawn of
                None \<Rightarrow> None
              | Some (Inl e) \<Rightarrow> Some (Inl e)
              | Some (Inr children) \<Rightarrow>
                  Some (Inr \<lparr>dt_label = ?gid, dt_id = ?gid, dt_pattern_id = ?gid @ ''-pattern'',
                             dt_clip = (if opt_clip_to_circle opts
                                        then Some (?gid @ ''-clip-'' @ take 6 u, ?cx, ?cy, ?r_outer)
                                        else None),
                             dt_pattern = children, dt_outline = ?outline\<rparr>))" for u
    unfolding effect_def Let_def case_prod_beta ..
  then show ?thesis by blast
qed


text \<open>The tree drawn for the default options, in terms of the one rosette it holds.\<close>

lemma default_effect:
  "effect lcg default_options mm_doc u =
   Some (Inr \<lparr>dt_label = ''dial-pattern'', dt_id = ''dial-pattern'',
              dt_pattern_id = ''dial-pattern-pattern'',
              dt_clip = Some (''dial-pattern-clip-'' @ take 6 u, 50, 50, 14.19),
              dt_pattern = pattern_guilloche 50 50 14.19 12 1.2 1200 0.10 ''#000000'' 0.35,
              dt_outline = Some (Circle 50 50 14.19
                \<lparr>st_fill = ''none'', st_stroke = ''#000000'', st_stroke_width = 0.12,
                 st_stroke_opacity = None, st_stroke_linecap = None,
                 st_stroke_linejoin = None\<rparr>)\<rparr>)"
  by (simp add: effect_def default_options_def get_doc_center_def mm_doc_def mm_to_uu_def
      draw_one_def dict_get_def no_overrides_def Let_def)

text \<open>
  Claim C1, as the code has it. For fixed options, document and random source, two runs
  of \<^verbatim>\<open>effect\<close> both fail to return, or both raise the same error, or both return trees
  with the same geometry: the same groups, shapes, coordinates, styles and child order.
  The trees differ at most in the id of the clip path, which ends in the first six hex
  digits of a fresh \<^verbatim>\<open>uuid4\<close>; they are equal when clipping is off (or when the two
  ids happen to be equal).
\<close>

theorem effect_deterministic_geometry:
  fixes R :: "'g prng"
  shows "rel_option (rel_sum (=) same_geometry) (effect R opts svg u1) (effect R opts svg u2)
       \<and> (\<not> opt_clip_to_circle opts \<or> take 6 u1 = take 6 u2 \<longrightarrow>
            effect R opts svg u1 = effect R opts svg u2)
       \<and> (effect R opts svg u1 = Some (Inr t) \<longrightarrow>
            map_option fst (dt_clip t) =
              (if opt_clip_to_circle opts then Some (dt_id t @ ''-clip-'' @ take 6 u1) else None))"
proof -
  from effect_form [of R opts svg] obtain drawn gid circ outline where
    form: "\<And>u. effect R opts svg u =
             (case drawn of
                None \<Rightarrow> None
              | Some (Inl e) \<Rightarrow> Some (Inl e)
              | Some (Inr children) \<Rightarrow>
                  Some (Inr \<lparr>dt_label = gid, dt_id = gid, dt_pattern_id = gid @ ''-pattern'',
                             dt_clip = (if opt_clip_to_circle opts
                                        then Some (gid @ ''-clip-'' @ take 6 u, circ) else None),
                             dt_pattern = children, dt_outline = outline\<rparr>))"
    by blast
  show ?thesis
  proof (cases drawn)
    case None
    then show ?thesis by (simp add: form)
  next
    case (Some res)
    obtain a b c where circ: "circ = (a, b, c)" by (cases circ) auto
    from Some show ?thesis
      by (cases res) (auto simp add: form same_geometry_def circ)
  qed
qed

text \<open>
  The default options with clipping off, run with two different uuids; and the clip id
  of the default options.
\<close>

theorem effect_deterministic_geometry_witness:
  "effect lcg (default_options\<lparr>opt_clip_to_circle := False\<rparr>) mm_doc
     ''0123456789abcdef0123456789abcdef'' =
   effect lcg (default_options\<lparr>opt_clip_to_circle := False\<rparr>) mm_doc
     ''fedcba9876543210fedcba9876543210''
   \<and> (\<exists>t. effect lcg default_options mm_doc ''0123456789abcdef0123456789abcdef'' = Some (Inr t)
          \<and> map_option fst (dt_clip t) = Some ''dial-pattern-clip-012345'')"
proof -
  have off: "\<not> opt_clip_to_circle (default_options\<lparr>opt_clip_to_circle := False\<rparr>)" by simp
  have on: "opt_clip_to_circle default_options" by (simp add: default_options_def)
  obtain t where t: "effect lcg default_options mm_doc ''0123456789abcdef0123456789abcdef'' = Some (Inr t)"
    and id: "dt_id t = ''dial-pattern''"
    by (simp add: default_effect)
  from effect_deterministic_geometry [of lcg "default_options\<lparr>opt_clip_to_circle := False\<rparr>" mm_doc
      "''0123456789abcdef0123456789abcdef''" "''fedcba9876543210fedcba9876543210''"] off
  have "effect lcg (default_options\<lparr>opt_clip_to_circle := False\<rparr>) mm_doc
          ''0123456789abcdef0123456789abcdef'' =
        effect lcg (default_options\<lparr>opt_clip_to_circle := False\<rparr>) mm_doc
          ''fedcba9876543210fedcba9876543210''"
    by blast
  moreover
  from effect_deterministic_geometry [of lcg default_options mm_doc
      "''0123456789abcdef0123456789abcdef''" "''0123456789abcdef0123456789abcdef''" t] t on id
  have "map_option fst (dt_clip t) = Some ''dial-pattern-clip-012345''"
    by simp
  ultimately show ?thesis using t by blast
qed

text \<open>
  Against C1 as stated: two runs with the default options (clipping on) whose uuids
  differ return different trees, with the clip ids \<^verbatim>\<open>dial-pattern-clip-012345\<close> and
  \<^verbatim>\<open>dial-pattern-clip-fedcba\<close>.
\<close>

theorem effect_clip_id_differs_counterexample:
  "effect lcg default_options mm_doc ''0123456789abcdef0123456789abcdef'' \<noteq>
   effect lcg default_options mm_doc ''fedcba9876543210fedcba9876543210''"
  by (simp add: default_effect)

end
